theory Spec2Isabelle
  imports Complex_Main "HOL-Library.Word"
begin

section \<open>JavaScript strings\<close>

text \<open>
  A JavaScript string is a sequence of UTF-16 code units.  Property names, field names and
  the fixed messages of the program are ASCII and are written as HOL strings; text that a
  user types, and everything the regular expressions and \<open>trim\<close> look at, is a list of
  code units.
\<close>

type_synonym jsstring = "16 word list"

definition js :: "string \<Rightarrow> jsstring" where
  "js s = map of_char s"

text \<open>ECMAScript \<open>WhiteSpace\<close>: TAB, VT, FF, ZWNBSP and the Unicode space separators.\<close>

definition isWhiteSpace :: "16 word \<Rightarrow> bool" where
  "isWhiteSpace c =
     (c = 0x0009 \<or> c = 0x000B \<or> c = 0x000C \<or> c = 0x0020 \<or> c = 0x00A0
      \<or> c = 0x1680 \<or> (0x2000 \<le> c \<and> c \<le> 0x200A)
      \<or> c = 0x202F \<or> c = 0x205F \<or> c = 0x3000 \<or> c = 0xFEFF)"

text \<open>ECMAScript \<open>LineTerminator\<close>: LF, CR, LS, PS.\<close>

definition isLineTerminator :: "16 word \<Rightarrow> bool" where
  "isLineTerminator c = (c = 0x000A \<or> c = 0x000D \<or> c = 0x2028 \<or> c = 0x2029)"

text \<open>What \<open>String.prototype.trim\<close> strips and what the class \<open>\s\<close> matches.\<close>

definition isSpaceChar :: "16 word \<Rightarrow> bool" where
  "isSpaceChar c = (isWhiteSpace c \<or> isLineTerminator c)"

text \<open>The class \<open>\w\<close>: ASCII letters, digits and the underscore.\<close>

definition isWordChar :: "16 word \<Rightarrow> bool" where
  "isWordChar c =
     ((0x41 \<le> c \<and> c \<le> 0x5A) \<or> (0x61 \<le> c \<and> c \<le> 0x7A)
      \<or> (0x30 \<le> c \<and> c \<le> 0x39) \<or> c = 0x5F)"

definition trim :: "jsstring \<Rightarrow> jsstring" where
  "trim s = rev (dropWhile isSpaceChar (rev (dropWhile isSpaceChar s)))"

section \<open>JavaScript values\<close>

text \<open>
  A Number is \<open>NaN\<close> or a rational (the literals of the program and the integers
  \<open>parseInt\<close> reads; \<open>-0\<close> is \<open>0\<close>, both falsy).  \<open>parseInt\<close> yields the integer the digits
  denote; the Number of the engine is the double nearest to it, equal to it below \<open>2^53\<close>,
  and rounding never turns a non-zero integer into zero or \<open>NaN\<close>.
\<close>

datatype jsnum = NaN | Num rat

datatype jsval =
    JUndefined
  | JNull
  | JBool bool
  | JNum jsnum
  | JStr jsstring
  | JArr "jsval list"
  | JObj "(string \<times> jsval) list"

text \<open>\<open>ToBoolean\<close>: what \<open>!v\<close>, \<open>v || w\<close> and \<open>if (v)\<close> test.\<close>

fun truthy :: "jsval \<Rightarrow> bool" where
  "truthy JUndefined = False"
| "truthy JNull = False"
| "truthy (JBool b) = b"
| "truthy (JNum NaN) = False"
| "truthy (JNum (Num q)) = (q \<noteq> 0)"
| "truthy (JStr s) = (s \<noteq> [])"
| "truthy (JArr xs) = True"
| "truthy (JObj kvs) = True"

text \<open>\<open>v || w\<close> and \<open>v ?? w\<close>.\<close>

definition js_or :: "jsval \<Rightarrow> jsval \<Rightarrow> jsval" where
  "js_or v w = (if truthy v then v else w)"

definition nullish :: "jsval \<Rightarrow> jsval \<Rightarrow> jsval" where
  "nullish v w = (if v = JUndefined \<or> v = JNull then w else v)"

text \<open>
  \<open>obj?.[key]\<close> for the property names of this program (none is an index or a built-in
  property of a string, a number or an array): the own property of an object, and
  \<open>undefined\<close> for a missing property and for every other value.
\<close>

fun get_prop :: "jsval \<Rightarrow> string \<Rightarrow> jsval" where
  "get_prop (JObj kvs) k = (case map_of kvs k of Some v \<Rightarrow> v | None \<Rightarrow> JUndefined)"
| "get_prop v k = JUndefined"

text \<open>
  A value that is missing (\<open>undefined\<close> or \<open>null\<close>) or a string of nothing but space
  characters, the empty string among them.
\<close>

definition isBlank :: "jsval \<Rightarrow> bool" where
  "isBlank v =
     (case v of
        JUndefined \<Rightarrow> True
      | JNull \<Rightarrow> True
      | JStr s \<Rightarrow> list_all isSpaceChar s
      | _ \<Rightarrow> False)"

definition isString :: "jsval \<Rightarrow> bool" where
  "isString v = (case v of JStr s \<Rightarrow> True | _ \<Rightarrow> False)"

text \<open>\<open>s.split(sep)\<close> for a separator of one character: never an empty list.\<close>

fun split_on :: "'a \<Rightarrow> 'a list \<Rightarrow> 'a list list" where
  "split_on sep [] = [[]]"
| "split_on sep (c # cs) =
     (if c = sep then [] # split_on sep cs
      else (case split_on sep cs of
              w # ws \<Rightarrow> (c # w) # ws
            | [] \<Rightarrow> [[c]]))"

subsection \<open>parseInt\<close>

text \<open>
  \<open>parseInt(string)\<close> without a radix: leading space characters are skipped, an optional
  sign is read, a prefix \<open>0x\<close> or \<open>0X\<close> selects radix 16 (radix 10 otherwise), and the
  longest run of digits of the radix is the number; with no digit the result is \<open>NaN\<close>.
\<close>

definition digitValue :: "16 word \<Rightarrow> nat option" where
  "digitValue c =
     (if 0x30 \<le> c \<and> c \<le> 0x39 then Some (unat c - 0x30)
      else if 0x61 \<le> c \<and> c \<le> 0x7A then Some (unat c - 0x61 + 10)
      else if 0x41 \<le> c \<and> c \<le> 0x5A then Some (unat c - 0x41 + 10)
      else None)"

definition isRadixDigit :: "nat \<Rightarrow> 16 word \<Rightarrow> bool" where
  "isRadixDigit r c = (case digitValue c of Some d \<Rightarrow> d < r | None \<Rightarrow> False)"

definition digitsValue :: "nat \<Rightarrow> jsstring \<Rightarrow> nat" where
  "digitsValue r ds =
     foldl (\<lambda>acc c. acc * r + (case digitValue c of Some d \<Rightarrow> d | None \<Rightarrow> 0)) 0 ds"

definition parseDigits :: "nat \<Rightarrow> jsstring \<Rightarrow> int option" where
  "parseDigits r s =
     (case takeWhile (isRadixDigit r) s of
        [] \<Rightarrow> None
      | d # ds \<Rightarrow> Some (int (digitsValue r (d # ds))))"

definition stripSign :: "jsstring \<Rightarrow> int \<times> jsstring" where
  "stripSign s =
     (case s of
        [] \<Rightarrow> (1, [])
      | c # cs \<Rightarrow> if c = 0x2D then (- 1, cs) else if c = 0x2B then (1, cs) else (1, c # cs))"

definition stripHexPrefix :: "jsstring \<Rightarrow> nat \<times> jsstring" where
  "stripHexPrefix s =
     (case s of
        a # b # rest \<Rightarrow> if a = 0x30 \<and> (b = 0x78 \<or> b = 0x58) then (16, rest) else (10, s)
      | _ \<Rightarrow> (10, s))"

definition parseInt :: "jsstring \<Rightarrow> jsnum" where
  "parseInt input =
     (case stripSign (dropWhile isSpaceChar input) of
        (sign, s) \<Rightarrow>
          (case stripHexPrefix s of
             (r, digits) \<Rightarrow>
               (case parseDigits r digits of
                  None \<Rightarrow> NaN
                | Some n \<Rightarrow> Num (of_int (sign * n)))))"

section \<open>The agent types: the table of Agents.jsx\<close>

text \<open>
  What the execute form holds for a field: nothing (\<open>undefined\<close>), the text of an input
  (\<open>e.target.value\<close>, also for a number input) or the state of a checkbox
  (\<open>e.target.checked\<close>); the default values are of the same kinds.
\<close>

datatype field_value = Unset | Text jsstring | Checked bool

fun to_js :: "field_value \<Rightarrow> jsval" where
  "to_js Unset = JUndefined"
| "to_js (Text s) = JStr s"
| "to_js (Checked b) = JBool b"

datatype field_kind = TextField | TextareaField | CheckboxField | SelectField | NumberField

text \<open>
  An entry of \<open>executeFields\<close>.  A key the source leaves out is \<open>undefined\<close> there:
  \<open>required\<close> is then false, \<open>options\<close> empty and \<open>defaultValue\<close> unset.  The attributes
  that only draw the page (placeholder, icon, IconComponent, color) are left out.
\<close>

record exec_field =
  field_name :: string
  label :: string
  field_type :: field_kind
  required :: bool
  options :: "(string \<times> string) list"
  defaultValue :: field_value

definition field :: "string \<Rightarrow> string \<Rightarrow> field_kind \<Rightarrow> exec_field" where
  "field n l t =
     \<lparr>field_name = n, label = l, field_type = t, required = False, options = [],
      defaultValue = Unset\<rparr>"

record agent_type_info =
  type_name :: string
  description :: jsstring
  defaultConfig :: "jsval list \<Rightarrow> jsval"
  mcpConfig :: jsval
  requiredFields :: "string list"
  executeFields :: "exec_field list"

text \<open>\<open>providers[0]?.name || 'ollama'\<close>\<close>

definition llm_provider_default :: "jsval list \<Rightarrow> jsval" where
  "llm_provider_default providers =
     js_or (case providers of [] \<Rightarrow> JUndefined | p # _ \<Rightarrow> get_prop p ''name'')
       (JStr (js ''ollama''))"

definition branch_code_review :: agent_type_info where
  "branch_code_review =
     \<lparr>type_name = ''Code Review Agent'',
      description =
        js ''Analyse automatique de code sur branches Git avec suggestions de corrections'',
      defaultConfig = (\<lambda>providers. JObj
        [(''mcp_servers'', JArr [JStr (js ''github'')]),
         (''use_llm'', JBool True),
         (''llm_provider'', llm_provider_default providers),
         (''llm_model'', JStr (js ''codestral:22b'')),
         (''llm_temperature'', JNum (Num (3 / 10))),
         (''review_focus'', JStr (js ''security'')),
         (''auto_fix'', JBool True),
         (''auto_create_pr'', JBool True)]),
      mcpConfig = JObj [(''github'', JObj [(''token'', JStr []), (''repo'', JStr [])])],
      requiredFields = [''github.token'', ''github.repo''],
      executeFields =
        [(field ''branch'' ''Branch Name'' TextField)\<lparr>required := True\<rparr>]\<rparr>"

definition code_generator :: agent_type_info where
  "code_generator =
     \<lparr>type_name = ''Code Generator Agent'',
      description =
        js ''G'' @ [0xE9] @ js ''n'' @ [0xE9] @ js ''ration de code assist'' @ [0xE9]
          @ js ''e par IA avec RAG, tests et linting automatiques'',
      defaultConfig = (\<lambda>providers. JObj
        [(''mcp_servers'', JArr [JStr (js ''github''), JStr (js ''linter'')]),
         (''llm_provider'', llm_provider_default providers),
         (''llm_model'', JStr (js ''codestral:22b'')),
         (''llm_temperature'', JNum (Num (2 / 10))),
         (''target_branch'', JStr (js ''ai-feature'')),
         (''base_branch'', JStr (js ''main'')),
         (''auto_test'', JBool True),
         (''auto_lint'', JBool True),
         (''auto_commit'', JBool True),
         (''auto_create_pr'', JBool False)]),
      mcpConfig = JObj [(''github'', JObj [(''token'', JStr []), (''repo'', JStr [])])],
      requiredFields = [''github.token'', ''github.repo''],
      executeFields =
        [(field ''prompt'' ''Code Generation Prompt'' TextareaField)\<lparr>required := True\<rparr>,
         (field ''create_new_files'' ''Create New Files'' CheckboxField)
           \<lparr>defaultValue := Checked True\<rparr>,
         (field ''test_mode'' ''Test Mode'' CheckboxField)\<lparr>defaultValue := Checked True\<rparr>]\<rparr>"

definition legal_fiscal :: agent_type_info where
  "legal_fiscal =
     \<lparr>type_name = ''Legal & Fiscal Expert'',
      description =
        js ''Expert juridique et fiscal avec RAG sur documents l'' @ [0xE9]
          @ js ''gaux (contrats, factures, RGPD)'',
      defaultConfig = (\<lambda>providers. JObj
        [(''llm_provider'', llm_provider_default providers),
         (''llm_model'', JStr (js ''mistrallite:latest'')),
         (''llm_temperature'', JNum (Num (3 / 10))),
         (''legal_config'', JObj
            [(''domains'',
                JArr [JStr (js ''fiscal''), JStr (js ''social''), JStr (js ''commercial'')]),
             (''auto_summary'', JBool True),
             (''extract_entities'', JBool True)])]),
      mcpConfig = JObj [],
      requiredFields = [],
      executeFields =
        [(field ''mode'' ''Analysis Mode'' SelectField)
           \<lparr>required := True,
            options :=
              [(''analyze'', ''Analyze Document''),
               (''risk_assessment'', ''Risk Assessment''),
               (''compliance_check'', ''Compliance Check''),
               (''claim_processing'', ''Claim Processing''),
               (''document_drafting'', ''Document Drafting''),
               (''legal_research'', ''Legal Research''),
               (''training'', ''Training Material''),
               (''monitoring'', ''Legislative Monitoring'')]\<rparr>,
         (field ''query'' ''Query/Instructions'' TextareaField)\<lparr>required := True\<rparr>,
         field ''documents'' ''Document Paths (optional)'' TextField]\<rparr>"

definition accounting_finance :: agent_type_info where
  "accounting_finance =
     \<lparr>type_name = ''Accounting Expert'',
      description =
        js ''Expert comptable et financier - analyse, conseil strat'' @ [0xE9]
          @ js ''gique, '' @ [0xE9] @ js ''critures comptables'',
      defaultConfig = (\<lambda>providers. JObj
        [(''llm_provider'', llm_provider_default providers),
         (''llm_model'', JStr (js ''mistrallite:latest'')),
         (''llm_temperature'', JNum (Num (3 / 10))),
         (''accounting_config'', JObj
            [(''domains'', JArr [JStr (js ''comptabilite''), JStr (js ''social'')]),
             (''auto_summary'', JBool True),
             (''extract_entities'', JBool True)])]),
      mcpConfig = JObj [],
      requiredFields = [],
      executeFields =
        [(field ''mode'' ''Mode'' SelectField)
           \<lparr>required := True,
            options :=
              [(''accounting_entry'', ''Accounting Entry''),
               (''strategic_advice'', ''Strategic Advice'')]\<rparr>,
         (field ''query'' ''Query/Instructions'' TextareaField)\<lparr>required := True\<rparr>]\<rparr>"

definition travel_expert :: agent_type_info where
  "travel_expert =
     \<lparr>type_name = ''Travel Expert'',
      description =
        js ''Planification de voyages personnalis'' @ [0xE9]
          @ js ''e avec recherche web int'' @ [0xE9] @ js ''gr'' @ [0xE9] @ js ''e'',
      defaultConfig = (\<lambda>providers. JObj
        [(''llm_provider'', llm_provider_default providers),
         (''llm_model'', JStr (js ''mistrallite:latest'')),
         (''llm_temperature'', JNum (Num (4 / 10))),
         (''travel_config'', JObj
            [(''search_preferences'', JObj
                [(''budget_aware'', JBool True),
                 (''eco_friendly'', JBool True),
                 (''accessibility'', JBool False)])])]),
      mcpConfig = JObj [],
      requiredFields = [],
      executeFields =
        [(field ''mode'' ''Mode'' SelectField)
           \<lparr>required := True,
            options :=
              [(''itinerary_planning'', ''Itinerary Planning''),
               (''destination_search'', ''Destination Search''),
               (''budget_analysis'', ''Budget Analysis'')],
            defaultValue := Text (js ''itinerary_planning'')\<rparr>,
         (field ''query'' ''Travel Request'' TextareaField)\<lparr>required := True\<rparr>]\<rparr>"

definition email_expert :: agent_type_info where
  "email_expert =
     \<lparr>type_name = ''Email Expert'',
      description =
        js ''Gestion intelligente des emails - analyse, r'' @ [0xE9] @ js ''daction, r''
          @ [0xE9] @ js ''ponses automatiques'',
      defaultConfig = (\<lambda>providers. JObj
        [(''llm_provider'', llm_provider_default providers),
         (''llm_model'', JStr (js ''mistrallite:latest'')),
         (''llm_temperature'', JNum (Num (6 / 10))),
         (''email_config'', JObj
            [(''email'', JStr []),
             (''password'', JStr []),
             (''imap_host'', JStr (js ''imap.gmail.com'')),
             (''imap_port'', JNum (Num 993)),
             (''smtp_host'', JStr (js ''smtp.gmail.com'')),
             (''smtp_port'', JNum (Num 587)),
             (''auto_categorize'', JBool True),
             (''auto_reply_enabled'', JBool False),
             (''signature'',
                JStr (js ''Cordialement,'' @ [0x5C] @ js ''nVotre Assistant IA'')),
             (''default_tone'', JStr (js ''professional'')),
             (''language'', JStr (js ''fr''))])]),
      mcpConfig = JObj [],
      requiredFields = [''email_config.email'', ''email_config.password''],
      executeFields =
        [(field ''mode'' ''Email Mode'' SelectField)
           \<lparr>required := True,
            options :=
              [(''send_email'', ''Send Email''),
               (''send_email_llm'', ''Send Email (LLM-Generated)''),
               (''analyze_inbox'', ''Analyze Inbox'')]\<rparr>,
         field ''to'' ''To (for send modes)'' TextField,
         field ''subject'' ''Subject (for send modes)'' TextField,
         field ''body'' ''Body (for send_email)'' TextareaField,
         field ''instructions'' ''Instructions (for send_email_llm)'' TextareaField,
         field ''context'' ''Context (for send_email_llm)'' TextField,
         field ''limit'' ''Limit (for analyze_inbox)'' NumberField,
         (field ''unread_only'' ''Unread Only (for analyze_inbox)'' CheckboxField)
           \<lparr>defaultValue := Checked True\<rparr>,
         (field ''auto_send'' ''Auto Send (for send_email_llm)'' CheckboxField)
           \<lparr>defaultValue := Checked False\<rparr>]\<rparr>"

definition websearch :: agent_type_info where
  "websearch =
     \<lparr>type_name = ''Web Search Agent'',
      description =
        js ''Recherche web avanc'' @ [0xE9] @ js ''e avec synth'' @ [0xE8]
          @ js ''se par LLM'',
      defaultConfig = (\<lambda>providers. JObj
        [(''llm_provider'', llm_provider_default providers),
         (''llm_model'', JStr (js ''mistrallite:latest'')),
         (''llm_temperature'', JNum (Num (5 / 10))),
         (''search_config'', JObj
            [(''max_results'', JNum (Num 10)),
             (''language'', JStr (js ''fr'')),
             (''safe_search'', JBool True),
             (''use_rag'', JBool False)])]),
      mcpConfig = JObj [],
      requiredFields = [],
      executeFields =
        [(field ''query'' ''Search Query'' TextField)\<lparr>required := True\<rparr>]\<rparr>"

text \<open>The object \<open>AGENT_TYPES\<close>, its keys in the order of the source.\<close>

definition AGENT_TYPES :: "(string \<times> agent_type_info) list" where
  "AGENT_TYPES =
     [(''branch_code_review'', branch_code_review),
      (''code_generator'', code_generator),
      (''legal_fiscal'', legal_fiscal),
      (''accounting_finance'', accounting_finance),
      (''travel_expert'', travel_expert),
      (''email_expert'', email_expert),
      (''websearch'', websearch)]"

text \<open>\<open>AGENT_TYPES[type]\<close>: \<open>None\<close> is \<open>undefined\<close>.\<close>

definition agentTypeOf :: "string \<Rightarrow> agent_type_info option" where
  "agentTypeOf t = map_of AGENT_TYPES t"

section \<open>ExecuteAgentModal\<close>

text \<open>
  An agent as the page holds it (an element of the response of \<open>GET /api/agents/\<close>).
  \<open>agent_type\<close> is used as a property name of \<open>AGENT_TYPES\<close> and compared with the
  names of the table.  The fields that are only displayed are left out.
\<close>

record agent =
  agent_id :: jsval
  agent_name :: jsstring
  agent_type :: string
  is_active :: jsval

type_synonym execute_data = "string \<Rightarrow> field_value"

text \<open>
  The effect that fills in the default values:
  \<^verbatim>\<open>
  const defaults = {};
  agentType.executeFields?.forEach(field => {
    if (field.defaultValue !== undefined) defaults[field.name] = field.defaultValue;
  });
  setExecuteData(defaults);
  \<close>
\<close>

definition initialExecuteData :: "agent_type_info \<Rightarrow> execute_data" where
  "initialExecuteData agentType =
     foldl (\<lambda>defaults f.
              if defaultValue f \<noteq> Unset then defaults(field_name f := defaultValue f)
              else defaults)
       (\<lambda>_. Unset) (executeFields agentType)"

definition handleFieldChange :: "string \<Rightarrow> field_value \<Rightarrow> execute_data \<Rightarrow> execute_data" where
  "handleFieldChange fieldName v prev = prev(fieldName := v)"

text \<open>
  The validation loop of \<open>handleSubmit\<close>, which stops at the first required field whose
  value is falsy:
  \<^verbatim>\<open>
  for (const field of requiredFields) {
    if (!executeData[field.name]) { setError(`Field "${field.label}" is required`); return; }
  }
  \<close>
\<close>

primrec firstMissing :: "exec_field list \<Rightarrow> execute_data \<Rightarrow> exec_field option" where
  "firstMissing [] executeData = None"
| "firstMissing (f # fs) executeData =
     (if \<not> truthy (to_js (executeData (field_name f))) then Some f
      else firstMissing fs executeData)"

definition requiredMessage :: "exec_field \<Rightarrow> jsstring" where
  "requiredMessage f = js (''Field '' @ [CHR 0x22] @ label f @ [CHR 0x22] @ '' is required'')"

text \<open>\<open>parseInt\<close> of a form value: \<open>ToString\<close> first.\<close>

fun parseIntValue :: "field_value \<Rightarrow> jsnum" where
  "parseIntValue (Text s) = parseInt s"
| "parseIntValue Unset = parseInt (js ''undefined'')"
| "parseIntValue (Checked b) = parseInt (js (if b then ''true'' else ''false''))"

text \<open>\<open>documents.split(',').map(d => d.trim()).filter(Boolean)\<close>\<close>

definition splitDocuments :: "jsstring \<Rightarrow> jsval" where
  "splitDocuments s = JArr (map JStr (filter (\<lambda>d. d \<noteq> []) (map trim (split_on 0x2C s))))"

text \<open>
  The object \<open>input_data\<close>, its properties in the order they are assigned.  \<open>None\<close> is the
  TypeError of \<open>executeData.documents.split\<close> on a truthy value that is no string.
\<close>

definition buildInputData :: "string \<Rightarrow> execute_data \<Rightarrow> jsval option" where
  "buildInputData agentType executeData =
     (if agentType = ''code_generator'' then
        Some (JObj
          [(''prompt'', to_js (executeData ''prompt'')),
           (''create_new_files'', nullish (to_js (executeData ''create_new_files'')) (JBool True)),
           (''test_mode'', nullish (to_js (executeData ''test_mode'')) (JBool True))])
      else if agentType = ''branch_code_review'' then
        Some (JObj [(''branch'', to_js (executeData ''branch''))])
      else if agentType = ''legal_fiscal'' then
        (let base = [(''mode'', to_js (executeData ''mode'')),
                     (''query'', to_js (executeData ''query''))] in
         case executeData ''documents'' of
           Unset \<Rightarrow> Some (JObj base)
         | Text s \<Rightarrow>
             if s \<noteq> [] then Some (JObj (base @ [(''documents'', splitDocuments s)]))
             else Some (JObj base)
         | Checked b \<Rightarrow> if b then None else Some (JObj base))
      else if agentType = ''accounting_finance'' then
        Some (JObj
          [(''mode'', to_js (executeData ''mode'')),
           (''query'', to_js (executeData ''query''))])
      else if agentType = ''travel_expert'' then
        Some (JObj
          [(''mode'', js_or (to_js (executeData ''mode'')) (JStr (js ''itinerary_planning''))),
           (''query'', to_js (executeData ''query''))])
      else if agentType = ''email_expert'' then
        Some (JObj
          ((''mode'', to_js (executeData ''mode'')) #
           (if executeData ''mode'' = Text (js ''send_email'') then
              [(''to'', to_js (executeData ''to'')),
               (''subject'', to_js (executeData ''subject'')),
               (''body'', to_js (executeData ''body''))]
            else if executeData ''mode'' = Text (js ''send_email_llm'') then
              [(''to'', to_js (executeData ''to'')),
               (''subject'', to_js (executeData ''subject'')),
               (''instructions'', to_js (executeData ''instructions'')),
               (''context'', to_js (executeData ''context'')),
               (''auto_send'', nullish (to_js (executeData ''auto_send'')) (JBool False))]
            else if executeData ''mode'' = Text (js ''analyze_inbox'') then
              [(''limit'', js_or (JNum (parseIntValue (executeData ''limit''))) (JNum (Num 20))),
               (''unread_only'', nullish (to_js (executeData ''unread_only'')) (JBool True))]
            else [])))
      else if agentType = ''websearch'' then
        Some (JObj [(''query'', to_js (executeData ''query''))])
      else Some (JObj []))"

text \<open>
  How \<open>onExecute\<close> ends: it returns, or it throws \<open>err\<close>, of which the handler reads
  \<open>err.response?.data?.detail\<close> and \<open>err.message\<close>.
\<close>

datatype api_result = ApiOk jsval | ApiError jsval jsval

text \<open>
  What one call of \<open>handleSubmit\<close> does: the error state it leaves (\<open>null\<close> after
  \<open>setError(null)\<close>), the calls \<open>onExecute(agent.id, payload)\<close> it makes, whether it calls
  \<open>onClose\<close>, and whether it ends in an uncaught TypeError.
\<close>

record submit_outcome =
  error :: jsval
  onExecuteCalls :: "(jsval \<times> jsval) list"
  onCloseCalled :: bool
  threw :: bool

definition handleSubmit ::
  "agent \<Rightarrow> agent_type_info \<Rightarrow> execute_data \<Rightarrow> (jsval \<Rightarrow> jsval \<Rightarrow> api_result) \<Rightarrow> submit_outcome"
where
  "handleSubmit agent agentType executeData onExecute =
     (case firstMissing (filter required (executeFields agentType)) executeData of
        Some f \<Rightarrow>
          \<lparr>error = JStr (requiredMessage f), onExecuteCalls = [], onCloseCalled = False,
           threw = False\<rparr>
      | None \<Rightarrow>
          (case buildInputData (agent_type agent) executeData of
             None \<Rightarrow>
               \<lparr>error = JNull, onExecuteCalls = [], onCloseCalled = False, threw = True\<rparr>
           | Some input_data \<Rightarrow>
               (let payload =
                      JObj [(''input_data'', input_data), (''trigger'', JStr (js ''manual''))]
                in case onExecute (agent_id agent) payload of
                     ApiOk response \<Rightarrow>
                       \<lparr>error = JNull, onExecuteCalls = [(agent_id agent, payload)],
                        onCloseCalled = True, threw = False\<rparr>
                   | ApiError detail message \<Rightarrow>
                       \<lparr>error = js_or (js_or detail message) (JStr (js ''Execution failed'')),
                        onExecuteCalls = [(agent_id agent, payload)],
                        onCloseCalled = False, threw = False\<rparr>)))"

section \<open>The Agents page\<close>

subsection \<open>Creating an agent\<close>

record form_data =
  form_name :: jsstring
  form_description :: jsstring
  form_agent_type :: string
  config :: jsval
  mcp_config :: jsval

definition emptyForm :: form_data where
  "emptyForm =
     \<lparr>form_name = [], form_description = [], form_agent_type = [], config = JObj [],
      mcp_config = JObj []\<rparr>"

text \<open>
  \<open>selectAgentType(type)\<close>: the form for the chosen type.  \<open>None\<close> is the TypeError of
  \<open>agentType.description\<close> when \<open>AGENT_TYPES[type]\<close> is \<open>undefined\<close>; the page calls it
  with the keys of \<open>Object.entries(AGENT_TYPES)\<close> only.  The table is the one the source
  writes.  (\<open>mcp_config\<close> is the very object \<open>mcpConfig\<close> of the table, and
  \<open>updateConfigField\<close> writes what is typed into it; no property below depends on what
  the form holds at the start.)
\<close>

definition selectAgentType :: "string \<Rightarrow> jsval list \<Rightarrow> form_data option" where
  "selectAgentType type providers =
     (case agentTypeOf type of
        None \<Rightarrow> None
      | Some agentType \<Rightarrow>
          Some \<lparr>form_name = [], form_description = description agentType,
                form_agent_type = type, config = defaultConfig agentType providers,
                mcp_config = mcpConfig agentType\<rparr>)"

text \<open>\<open>field.split('.').reduce((obj, key) => obj?.[key], root)\<close>\<close>

definition lookupPath :: "string \<Rightarrow> jsval \<Rightarrow> jsval" where
  "lookupPath path obj = foldl get_prop obj (split_on (CHR ''.'') path)"

text \<open>
  What \<open>validateForm\<close> does: it returns true, or it sets an error and returns false, or it
  ends in a TypeError (\<open>AGENT_TYPES[selectedAgentType]\<close> is \<open>undefined\<close>, or a required
  value is truthy and has no \<open>trim\<close>).
\<close>

datatype validation = Valid | Invalid jsstring | ValidationThrew

text \<open>
  \<^verbatim>\<open>
  for (const field of agentType.requiredFields) {
    const value = field.split('.').reduce((obj, key) => obj?.[key],
      field.startsWith('github') ? formData.mcp_config : formData.config);
    if (!value || value.trim() === '') { setError(`Field ${field} is required`); return false; }
  }
  return true;
  \<close>
\<close>

primrec checkRequired :: "string list \<Rightarrow> form_data \<Rightarrow> validation" where
  "checkRequired [] formData = Valid"
| "checkRequired (path # rest) formData =
     (let v = lookupPath path
                (if take 6 path = ''github'' then mcp_config formData else config formData)
      in if \<not> truthy v then Invalid (js (''Field '' @ path @ '' is required''))
         else (case v of
                 JStr s \<Rightarrow>
                   if trim s = [] then Invalid (js (''Field '' @ path @ '' is required''))
                   else checkRequired rest formData
               | _ \<Rightarrow> ValidationThrew))"

definition validateForm :: "form_data \<Rightarrow> string option \<Rightarrow> validation" where
  "validateForm formData selectedAgentType =
     (if trim (form_name formData) = [] then Invalid (js ''Agent name is required'')
      else (case selectedAgentType of
              None \<Rightarrow> ValidationThrew
            | Some type \<Rightarrow>
                (case agentTypeOf type of
                   None \<Rightarrow> ValidationThrew
                 | Some agentType \<Rightarrow> checkRequired (requiredFields agentType) formData)))"

subsection \<open>The state of the page\<close>

text \<open>
  The state of the component \<open>Agents\<close>, and two logs of what it has sent: the bodies of
  \<open>POST /api/agents/\<close> and, for every \<open>POST /api/agents/{id}/execute\<close>, the agent whose
  id was used together with the payload.
\<close>

record page_state =
  agents :: "agent list"
  loading :: bool
  page_error :: jsval
  success :: jsval
  showCreateModal :: bool
  showExecuteModal :: bool
  selectedAgentType :: "string option"
  selectedAgent :: "agent option"
  providers :: "jsval list"
  formData :: form_data
  createRequests :: "form_data list"
  executeRequests :: "(agent \<times> jsval) list"

definition initialPage :: page_state where
  "initialPage =
     \<lparr>agents = [], loading = True, page_error = JNull, success = JNull,
      showCreateModal = False, showExecuteModal = False, selectedAgentType = None,
      selectedAgent = None, providers = [], formData = emptyForm, createRequests = [],
      executeRequests = []\<rparr>"

text \<open>
  The \<open>handleSubmit\<close> of the page (the button Create Agent):
  \<^verbatim>\<open>
  if (!validateForm()) return;
  try { await api.post('/api/agents/', formData); setSuccess('Agent created successfully!'); ... }
  catch (err) { setError(err.response?.data?.detail || 'Failed to create agent'); }
  \<close>
  The second argument is how the request ends, should it be sent.
\<close>

definition Agents_handleSubmit :: "page_state \<Rightarrow> api_result \<Rightarrow> page_state" where
  "Agents_handleSubmit st response =
     (case validateForm (formData st) (selectedAgentType st) of
        Invalid msg \<Rightarrow> st\<lparr>page_error := JStr msg\<rparr>
      | ValidationThrew \<Rightarrow> st
      | Valid \<Rightarrow>
          (case response of
             ApiOk d \<Rightarrow>
               st\<lparr>success := JStr (js ''Agent created successfully!''),
                  createRequests := createRequests st @ [formData st]\<rparr>
           | ApiError detail message \<Rightarrow>
               st\<lparr>page_error := js_or detail (JStr (js ''Failed to create agent'')),
                  createRequests := createRequests st @ [formData st]\<rparr>))"

subsection \<open>Executing an agent\<close>

definition handleExecuteAgent :: "agent \<Rightarrow> page_state \<Rightarrow> page_state" where
  "handleExecuteAgent a st = st\<lparr>selectedAgent := Some a, showExecuteModal := True\<rparr>"

text \<open>
  Modelled from the spec: the component \<open>Button\<close> (\<open>components/common/Button\<close>) is not
  among the sources.  As the button element it renders, it calls \<open>onClick\<close> when it is
  clicked unless \<open>disabled\<close> is set.
\<close>

definition clickButton :: "bool \<Rightarrow> (page_state \<Rightarrow> page_state) \<Rightarrow> page_state \<Rightarrow> page_state" where
  "clickButton disabled onClick st = (if disabled then st else onClick st)"

text \<open>
  The button Execute of the card of an agent:
  \<open>onClick={() => handleExecuteAgent(agent)}\<close>, \<open>disabled={!agent.is_active}\<close>.
\<close>

definition clickExecute :: "agent \<Rightarrow> page_state \<Rightarrow> page_state" where
  "clickExecute a st = clickButton (\<not> truthy (is_active a)) (handleExecuteAgent a) st"

text \<open>\<open>onClose\<close> of the modal.\<close>

definition closeExecuteModal :: "page_state \<Rightarrow> page_state" where
  "closeExecuteModal st = st\<lparr>showExecuteModal := False, selectedAgent := None\<rparr>"

text \<open>
  A click on Execute Agent in the modal, which is rendered when \<open>showExecuteModal\<close> and
  \<open>selectedAgent\<close> are set, for the agent type \<open>AGENT_TYPES[selectedAgent.agent_type]\<close>
  (with an unknown type the modal fails while rendering and offers no button).
  \<open>onExecute\<close> is \<open>executeAgent\<close>: it posts the payload, sets the success message when the
  request succeeds and throws the error on when it fails.
\<close>

definition submitExecuteModal :: "execute_data \<Rightarrow> api_result \<Rightarrow> page_state \<Rightarrow> page_state" where
  "submitExecuteModal executeData response st =
     (case selectedAgent st of
        None \<Rightarrow> st
      | Some a \<Rightarrow>
          if \<not> showExecuteModal st then st
          else (case agentTypeOf (agent_type a) of
                  None \<Rightarrow> st
                | Some agentType \<Rightarrow>
                    (let out = handleSubmit a agentType executeData (\<lambda>i p. response);
                         st1 = st\<lparr>executeRequests :=
                                   executeRequests st @ map (\<lambda>(i, p). (a, p)) (onExecuteCalls out)\<rparr>;
                         st2 = (case response of
                                  ApiOk d \<Rightarrow>
                                    if onExecuteCalls out = [] then st1
                                    else st1\<lparr>success :=
                                           JStr (js ''Agent execution started successfully!'')\<rparr>
                                | ApiError detail message \<Rightarrow> st1)
                     in if onCloseCalled out then closeExecuteModal st2 else st2)))"

text \<open>
  What happens on the page as far as executions go: the list of agents arrives or fails
  to arrive (\<open>loadAgents\<close>), the button Execute of the \<open>i\<close>-th card is clicked, the modal is closed,
  the modal is submitted.
\<close>

datatype page_event =
    AgentsLoaded "agent list"
  | AgentsLoadFailed jsval
  | ExecuteClicked nat
  | ExecuteModalClosed
  | ExecuteModalSubmitted execute_data api_result

fun page_step :: "page_state \<Rightarrow> page_event \<Rightarrow> page_state" where
  "page_step st (AgentsLoaded data) = st\<lparr>agents := data, loading := False\<rparr>"
| "page_step st (AgentsLoadFailed detail) =
     st\<lparr>page_error := js_or detail (JStr (js ''Failed to load agents'')), loading := False\<rparr>"
| "page_step st (ExecuteClicked i) =
     (if \<not> loading st \<and> i < length (agents st) then clickExecute (agents st ! i) st else st)"
| "page_step st ExecuteModalClosed = closeExecuteModal st"
| "page_step st (ExecuteModalSubmitted executeData response) =
     submitExecuteModal executeData response st"

definition page_run :: "page_state \<Rightarrow> page_event list \<Rightarrow> page_state" where
  "page_run st evs = foldl page_step st evs"

text \<open>
  The agent of the modal, if any, was listed as active, and so was the agent of every
  execution request sent so far.
\<close>

definition modalAgentActive :: "page_state \<Rightarrow> bool" where
  "modalAgentActive st =
     ((case selectedAgent st of None \<Rightarrow> True | Some a \<Rightarrow> truthy (is_active a))
      \<and> list_all (\<lambda>(a, p). truthy (is_active a)) (executeRequests st))"

section \<open>The execution engine\<close>

text \<open>
  Modelled from the spec: the Execution Orchestrator and the Tool Protocol Client (the
  backend behind \<open>POST /api/agents/{id}/execute\<close>) are not among the sources.  The
  definitions of this section follow sections 3, 4.1, 4.2, 4.4 and 5 of the spec.
\<close>

subsection \<open>Executions and their status\<close>

text \<open>
  Modelled from the spec: the status of an Execution (section 3), the ordered set
  \<open>idle < running < {completed, failed, cancelled}\<close>.  \<open>Idle\<close> is the
  absence of a stored Execution; it is a status one may ask for, never one that is stored.
\<close>

datatype exec_status = Idle | Running | Completed | Failed | Cancelled

definition terminal :: "exec_status \<Rightarrow> bool" where
  "terminal s = (s = Completed \<or> s = Failed \<or> s = Cancelled)"

record agent_definition =
  definition_id :: nat
  workflow_type :: string
  active :: bool
  tool_servers :: "string list"

datatype wf_event =
    LogEvent jsstring jsstring
  | ProgressEvent jsstring nat
  | ResultEvent jsval
  | TokensEvent nat

record execution =
  execution_id :: nat
  agent_ref :: nat
  status :: exec_status
  input_payload :: jsval
  exec_log :: "(jsstring \<times> jsstring) list"
  exec_result :: "jsval option"
  tokens_used :: nat
  started_at :: nat
  completed_at :: "nat option"

datatype engine_error =
    ConfigError
  | ConcurrentExecutionError nat
  | TransitionRejected
  | UnknownExecution

text \<open>
  Modelled from the spec: a status transition of a stored Execution (sections 3, 4.1 and
  8), which the missing orchestrator performs: only \<open>running \<rightarrow> {completed, failed,
  cancelled}\<close>; everything else is rejected.  The accepted transition sets \<open>completed_at\<close>.
\<close>

definition transition :: "execution \<Rightarrow> exec_status \<Rightarrow> nat \<Rightarrow> engine_error + execution" where
  "transition e target now =
     (if status e = Running \<and> terminal target
      then Inr (e\<lparr>status := target, completed_at := Some now\<rparr>)
      else Inl TransitionRejected)"

text \<open>
  Modelled from the spec: a sequence of attempted transitions on one Execution, each with the time of the
  attempt; a rejected attempt leaves the Execution as it is.  The result is the Execution
  and the attempts that were accepted.
\<close>

fun attempt_all ::
  "execution \<Rightarrow> (exec_status \<times> nat) list \<Rightarrow> execution \<times> (exec_status \<times> nat) list"
where
  "attempt_all e [] = (e, [])"
| "attempt_all e ((target, now) # rest) =
     (case transition e target now of
        Inl err \<Rightarrow> attempt_all e rest
      | Inr e' \<Rightarrow> (case attempt_all e' rest of (e'', acc) \<Rightarrow> (e'', (target, now) # acc)))"

subsection \<open>The orchestrator\<close>

text \<open>
  Modelled from the spec: the state of the missing orchestrator (sections 4.1 and 5):
  the Execution Store, the mutual-exclusion flag keyed by the identifier of the
  AgentDefinition (it holds the identifier of the running Execution, the reference a
  rejected start returns), the events relayed to the Event Sink, and the clock.
\<close>

record engine =
  executions :: "execution list"
  running_flag :: "nat \<Rightarrow> nat option"
  emitted :: "(nat \<times> wf_event) list"
  next_id :: nat
  clock :: nat

definition initialEngine :: engine where
  "initialEngine =
     \<lparr>executions = [], running_flag = (\<lambda>d. None), emitted = [], next_id = 0, clock = 0\<rparr>"

text \<open>
  Modelled from the spec: \<open>start\<close> (\<open>createExecution\<close>) of the missing orchestrator,
  section 4.1, its two constraints in the order the spec gives them: the acceptance check and, on acceptance, the new Execution
  in state \<open>running\<close>.  The definition must be active, else \<open>ConfigError\<close>; the flag of the
  definition must be free, else \<open>ConcurrentExecutionError\<close> with the running Execution.
\<close>

definition start :: "engine \<Rightarrow> agent_definition \<Rightarrow> jsval \<Rightarrow> (engine_error + execution) \<times> engine" where
  "start st d input =
     (if \<not> active d then (Inl ConfigError, st)
      else (case running_flag st (definition_id d) of
              Some existing \<Rightarrow> (Inl (ConcurrentExecutionError existing), st)
            | None \<Rightarrow>
                (let e = \<lparr>execution_id = next_id st, agent_ref = definition_id d,
                          status = Running, input_payload = input, exec_log = [],
                          exec_result = None, tokens_used = 0, started_at = clock st,
                          completed_at = None\<rparr>
                 in (Inr e,
                     st\<lparr>executions := executions st @ [e],
                        running_flag := (running_flag st)(definition_id d := Some (next_id st)),
                        next_id := Suc (next_id st)\<rparr>))))"

definition find_execution :: "engine \<Rightarrow> nat \<Rightarrow> execution option" where
  "find_execution st eid = find (\<lambda>e. execution_id e = eid) (executions st)"

definition store :: "execution \<Rightarrow> engine \<Rightarrow> engine" where
  "store e st =
     st\<lparr>executions := map (\<lambda>x. if execution_id x = execution_id e then e else x) (executions st)\<rparr>"

text \<open>
  Modelled from the spec: finalizing (the implicit \<open>done\<close>: \<open>completed\<close>, or \<open>failed\<close> after an unrecovered error)
  and cancelling go through \<open>transition\<close>; the accepted transition frees the flag.
\<close>

definition set_status :: "engine \<Rightarrow> nat \<Rightarrow> exec_status \<Rightarrow> (engine_error + execution) \<times> engine" where
  "set_status st eid target =
     (case find_execution st eid of
        None \<Rightarrow> (Inl UnknownExecution, st)
      | Some e \<Rightarrow>
          (case transition e target (clock st) of
             Inl err \<Rightarrow> (Inl err, st)
           | Inr e' \<Rightarrow>
               (Inr e', (store e' st)\<lparr>running_flag := (running_flag st)(agent_ref e := None)\<rparr>)))"

text \<open>Modelled from the spec: \<open>cancel\<close> (section 4.1), a no-op returning the current state unless the Execution is running.\<close>

definition cancel :: "engine \<Rightarrow> nat \<Rightarrow> (engine_error + execution) \<times> engine" where
  "cancel st eid =
     (case find_execution st eid of
        None \<Rightarrow> (Inl UnknownExecution, st)
      | Some e \<Rightarrow> if status e = Running then set_status st eid Cancelled else (Inr e, st))"

text \<open>
  Modelled from the spec: an event of the Workflow of a running Execution (section 4.1): relayed to the sink, a log event
  appended to the log, a result event stored, token usage added.  Events for an Execution
  that is not running are not accepted.
\<close>

definition relay :: "engine \<Rightarrow> nat \<Rightarrow> wf_event \<Rightarrow> engine" where
  "relay st eid ev =
     (case find_execution st eid of
        None \<Rightarrow> st
      | Some e \<Rightarrow>
          if status e \<noteq> Running then st
          else (let e' = (case ev of
                            LogEvent lvl msg \<Rightarrow> e\<lparr>exec_log := exec_log e @ [(lvl, msg)]\<rparr>
                          | ProgressEvent step percent \<Rightarrow> e
                          | ResultEvent data \<Rightarrow> e\<lparr>exec_result := Some data\<rparr>
                          | TokensEvent n \<Rightarrow> e\<lparr>tokens_used := tokens_used e + n\<rparr>)
                in (store e' st)\<lparr>emitted := emitted st @ [(eid, ev)]\<rparr>))"

text \<open>
  Modelled from the spec: what the host and the workflows ask of the engine (section 6),
  in any order.
\<close>

datatype engine_request =
    Start agent_definition jsval
  | Finish nat exec_status
  | Cancel nat
  | Emit nat wf_event
  | Tick

fun engine_step :: "engine \<Rightarrow> engine_request \<Rightarrow> engine" where
  "engine_step st (Start d input) = snd (start st d input)"
| "engine_step st (Finish eid target) = snd (set_status st eid target)"
| "engine_step st (Cancel eid) = snd (cancel st eid)"
| "engine_step st (Emit eid ev) = relay st eid ev"
| "engine_step st Tick = st\<lparr>clock := Suc (clock st)\<rparr>"

definition engine_run :: "engine \<Rightarrow> engine_request list \<Rightarrow> engine" where
  "engine_run st reqs = foldl engine_step st reqs"

definition running_of :: "engine \<Rightarrow> nat \<Rightarrow> execution list" where
  "running_of st d = filter (\<lambda>e. agent_ref e = d \<and> status e = Running) (executions st)"

text \<open>
  What holds of every state the engine reaches: identifiers are unique and below
  \<open>next_id\<close>; the flag of a definition is set exactly for its running Execution; and
  \<open>completed_at\<close> is set exactly in the terminal states.
\<close>

definition engine_inv :: "engine \<Rightarrow> bool" where
  "engine_inv st =
     (distinct (map execution_id (executions st))
      \<and> (\<forall>e \<in> set (executions st). execution_id e < next_id st)
      \<and> (\<forall>d eid. running_flag st d = Some eid \<longrightarrow>
            (\<exists>e \<in> set (executions st).
               execution_id e = eid \<and> agent_ref e = d \<and> status e = Running))
      \<and> (\<forall>e \<in> set (executions st). status e = Running \<longrightarrow>
            running_flag st (agent_ref e) = Some (execution_id e))
      \<and> (\<forall>e \<in> set (executions st).
            (completed_at e \<noteq> None) = terminal (status e) \<and> status e \<noteq> Idle))"

subsection \<open>The Tool Protocol Client\<close>

text \<open>
  Modelled from the spec: how one attempt of a call of the missing Tool Protocol Client
  ends (sections 4.2 and 4.4).  Timeouts, connection failures and rate limits are
  transient and retried; the other errors are surfaced at once; the step budget running
  out aborts the call whatever attempts remain.
\<close>

datatype attempt_outcome =
    Succeeded jsval
  | TimedOut
  | ConnectionFailed
  | RateLimited
  | ToolError
  | AuthFailed
  | MalformedRequest
  | StepBudgetExceeded

definition transient :: "attempt_outcome \<Rightarrow> bool" where
  "transient a = (a = TimedOut \<or> a = ConnectionFailed \<or> a = RateLimited)"

datatype call_result =
    CallOk jsval
  | CallConfigError
  | CallFailed attempt_outcome

text \<open>
  Modelled from the spec: the attempts of one logical call (the retry policy of section
  4.4): the outcomes the server gives, in order, of which at
  most \<open>budget\<close> are tried.  The result comes with the number of attempts made.
\<close>

fun attempts :: "nat \<Rightarrow> attempt_outcome list \<Rightarrow> call_result \<times> nat" where
  "attempts 0 outcomes = (CallFailed TimedOut, 0)"
| "attempts (Suc budget) [] = (CallFailed TimedOut, 1)"
| "attempts (Suc budget) (a # rest) =
     (case a of
        Succeeded r \<Rightarrow> (CallOk r, 1)
      | _ \<Rightarrow>
          if transient a \<and> budget \<noteq> 0 then
            (case attempts budget rest of (r, n) \<Rightarrow> (r, Suc n))
          else (CallFailed a, 1))"

record tool_client =
  servers :: "string list"
  max_attempts :: nat
  mcp_calls :: "string \<Rightarrow> nat"
  attempts_made :: nat

text \<open>
  Modelled from the spec: \<open>call(serverName, ...)\<close> of section 4.2: an unknown server fails at once with \<open>ConfigError\<close>, without a
  retry and without a count; a logical call to a known server, however it ends and after
  however many attempts, adds one to \<open>mcp_calls[serverName]\<close>.
\<close>

definition call :: "tool_client \<Rightarrow> string \<Rightarrow> attempt_outcome list \<Rightarrow> call_result \<times> tool_client" where
  "call c serverName outcomes =
     (if serverName \<notin> set (servers c) then (CallConfigError, c)
      else (case attempts (max_attempts c) outcomes of
              (r, n) \<Rightarrow>
                (r, c\<lparr>mcp_calls := (mcp_calls c)(serverName := Suc (mcp_calls c serverName)),
                      attempts_made := attempts_made c + n\<rparr>)))"

text \<open>
  Modelled from the spec: the logical calls a Workflow issues, one after the other
  (section 4.5: sequential by construction).
\<close>

fun call_all :: "tool_client \<Rightarrow> (string \<times> attempt_outcome list) list \<Rightarrow> tool_client" where
  "call_all c [] = c"
| "call_all c ((serverName, outcomes) # rest) = call_all (snd (call c serverName outcomes)) rest"

section \<open>MarkdownMessage: the streaming buffer\<close>

text \<open>
  \<^verbatim>\<open>
  const processedContent = useMemo(() => {
    if (!isStreaming) return content;
    const codeBlockPattern = /```(\w+)?\n/g;
    const openingMatches = [...content.matchAll(codeBlockPattern)];
    const closingPattern = /```\s*$/gm;
    const closingMatches = [...content.matchAll(closingPattern)];
    if (openingMatches.length > closingMatches.length) {
      return content + '\n```\n\n_G\'en\'eration en cours..._';
    }
    const lastLine = content.split('\n').pop();
    if (lastLine && /^[\s]*[-*]\s*$/.test(lastLine)) {
      return content + '...';
    }
    return content;
  }, [content, isStreaming]);
  \<close>
  (the two accented letters of the suffix are the code unit \<open>0xE9\<close>).
\<close>

definition fence :: jsstring where
  "fence = [0x60, 0x60, 0x60]"

text \<open>
  One attempt of \<open>```(\w+)?\n\<close> at the head of the input: the length of the match.
  The optional group is greedy, and giving word characters back can only put a word
  character where the line feed is wanted, so the attempt succeeds exactly when the
  longest run of word characters after the fence is followed by a line feed.
\<close>

definition matchOpening :: "jsstring \<Rightarrow> nat option" where
  "matchOpening s =
     (if take 3 s = fence then
        (case dropWhile isWordChar (drop 3 s) of
           c # _ \<Rightarrow> if c = 0x0A then Some (3 + length (takeWhile isWordChar (drop 3 s)) + 1)
                    else None
         | [] \<Rightarrow> None)
      else None)"

text \<open>
  One attempt of \<open>```\s*$\<close> (multiline) at the head of the input.  \<open>\s*\<close> first takes
  the whole run of space characters; \<open>$\<close> holds there when the input ends.  Otherwise
  the next character is no line terminator, and the run is given back one character at a
  time until \<open>$\<close> stands before a line terminator: the last one of the run.
\<close>

definition matchClosing :: "jsstring \<Rightarrow> nat option" where
  "matchClosing s =
     (if take 3 s = fence then
        (let run = takeWhile isSpaceChar (drop 3 s) in
         if dropWhile isSpaceChar (drop 3 s) = [] then Some (3 + length run)
         else (case dropWhile (\<lambda>c. \<not> isLineTerminator c) (rev run) of
                 [] \<Rightarrow> None
               | _ # before \<Rightarrow> Some (3 + length before)))
      else None)"

text \<open>
  \<open>matchAll\<close> with a global pattern: attempts from left to right; after a match the next
  attempt starts where the match ended.  The first argument counts the code units of the
  current match still to be passed over.
\<close>

fun countMatches :: "(jsstring \<Rightarrow> nat option) \<Rightarrow> nat \<Rightarrow> jsstring \<Rightarrow> nat" where
  "countMatches m k [] = 0"
| "countMatches m (Suc k) (c # cs) = countMatches m k cs"
| "countMatches m 0 (c # cs) =
     (case m (c # cs) of
        Some n \<Rightarrow> Suc (countMatches m (n - 1) cs)
      | None \<Rightarrow> countMatches m 0 cs)"

text \<open>\<open>content.split('\n').pop()\<close>: what follows the last line feed.\<close>

definition lastLine :: "jsstring \<Rightarrow> jsstring" where
  "lastLine s = rev (takeWhile (\<lambda>c. c \<noteq> 0x0A) (rev s))"

text \<open>\<open>/^[\s]*[-*]\s*$/\<close>: spaces, one hyphen or asterisk, spaces, and nothing else.\<close>

definition isOpenBullet :: "jsstring \<Rightarrow> bool" where
  "isOpenBullet l =
     (case dropWhile isSpaceChar l of
        [] \<Rightarrow> False
      | c # rest \<Rightarrow> (c = 0x2D \<or> c = 0x2A) \<and> dropWhile isSpaceChar rest = [])"

definition fenceSuffix :: jsstring where
  "fenceSuffix =
     [0x0A] @ fence @ [0x0A, 0x0A] @ js ''_G'' @ [0xE9] @ js ''n'' @ [0xE9]
       @ js ''ration en cours..._''"

definition processedContent :: "jsstring \<Rightarrow> bool \<Rightarrow> jsstring" where
  "processedContent content isStreaming =
     (if \<not> isStreaming then content
      else if countMatches matchOpening 0 content > countMatches matchClosing 0 content
        then content @ fenceSuffix
      else if lastLine content \<noteq> [] \<and> isOpenBullet (lastLine content)
        then content @ js ''...''
      else content)"

section \<open>Verified properties\<close>

subsection \<open>ExecuteAgentModal: required fields\<close>

lemma firstMissing_Some:
  "firstMissing fs d = Some g \<Longrightarrow>
     \<exists>pre post. fs = pre @ g # post
        \<and> list_all (\<lambda>h. truthy (to_js (d (field_name h)))) pre
        \<and> \<not> truthy (to_js (d (field_name g)))"
proof (induction fs)
  case Nil
  then show ?case by simp
next
  case (Cons a fs)
  show ?case
  proof (cases "truthy (to_js (d (field_name a)))")
    case False
    with Cons.prems have "g = a" by simp
    with False have "a # fs = [] @ g # fs
        \<and> list_all (\<lambda>h. truthy (to_js (d (field_name h)))) []
        \<and> \<not> truthy (to_js (d (field_name g)))" by simp
    then show ?thesis by blast
  next
    case True
    with Cons.prems have "firstMissing fs d = Some g" by simp
    from Cons.IH [OF this] obtain pre post where
      "fs = pre @ g # post" "list_all (\<lambda>h. truthy (to_js (d (field_name h)))) pre"
      "\<not> truthy (to_js (d (field_name g)))" by blast
    with True have "a # fs = (a # pre) @ g # post
        \<and> list_all (\<lambda>h. truthy (to_js (d (field_name h)))) (a # pre)
        \<and> \<not> truthy (to_js (d (field_name g)))" by simp
    then show ?thesis by blast
  qed
qed

lemma firstMissing_None:
  "firstMissing fs d = None \<longleftrightarrow> list_all (\<lambda>h. truthy (to_js (d (field_name h)))) fs"
  by (induction fs) auto

lemma firstMissing_at:
  "f \<in> set fs \<Longrightarrow> \<not> truthy (to_js (d (field_name f))) \<Longrightarrow>
   list_all (\<lambda>h. truthy (to_js (d (field_name h)))) (takeWhile (\<lambda>h. h \<noteq> f) fs) \<Longrightarrow>
   firstMissing fs d = Some f"
  by (induction fs) (auto split: if_splits)

lemma handleSubmit_missing:
  "firstMissing (filter required (executeFields t)) d = Some g \<Longrightarrow>
   handleSubmit a t d api =
     \<lparr>error = JStr (requiredMessage g), onExecuteCalls = [], onCloseCalled = False,
      threw = False\<rparr>"
  by (simp add: handleSubmit_def)

text \<open>
  C8.  For every agent type and every submission of the execute form in which a required
  field \<open>f\<close> is missing or empty, \<open>onExecute\<close> is not called (nor \<open>onClose\<close>), and the
  error that is set is the message of a required field whose value is falsy: the first
  such field in the order of the form, all required fields before it being filled in.  It
  is the message of \<open>f\<close> itself whenever the required fields before \<open>f\<close> are filled in.
\<close>

theorem handleSubmit_required_field_missing:
  assumes "f \<in> set (executeFields agentType)" and "required f"
    and "executeData (field_name f) = Unset \<or> executeData (field_name f) = Text []"
  shows "onExecuteCalls (handleSubmit agent agentType executeData onExecute) = []
       \<and> \<not> onCloseCalled (handleSubmit agent agentType executeData onExecute)
       \<and> (\<exists>g pre post.
             filter required (executeFields agentType) = pre @ g # post
           \<and> list_all (\<lambda>h. truthy (to_js (executeData (field_name h)))) pre
           \<and> \<not> truthy (to_js (executeData (field_name g)))
           \<and> error (handleSubmit agent agentType executeData onExecute)
               = JStr (requiredMessage g))
       \<and> (list_all (\<lambda>h. truthy (to_js (executeData (field_name h))))
             (takeWhile (\<lambda>h. h \<noteq> f) (filter required (executeFields agentType)))
           \<longrightarrow> error (handleSubmit agent agentType executeData onExecute)
                 = JStr (requiredMessage f))"
proof -
  let ?fs = "filter required (executeFields agentType)"
  let ?out = "handleSubmit agent agentType executeData onExecute"
  from assms(3) have falsy: "\<not> truthy (to_js (executeData (field_name f)))" by auto
  from assms(1,2) have mem: "f \<in> set ?fs" by simp
  from mem falsy have "\<not> list_all (\<lambda>h. truthy (to_js (executeData (field_name h)))) ?fs"
    by (auto simp: list_all_iff)
  then obtain g where g: "firstMissing ?fs executeData = Some g"
    by (cases "firstMissing ?fs executeData") (simp_all add: firstMissing_None)
  note out = handleSubmit_missing [OF g, of agent onExecute]
  from firstMissing_Some [OF g] obtain pre post where
    "?fs = pre @ g # post" "list_all (\<lambda>h. truthy (to_js (executeData (field_name h)))) pre"
    "\<not> truthy (to_js (executeData (field_name g)))" by blast
  then have ex: "\<exists>g pre post.
             ?fs = pre @ g # post
           \<and> list_all (\<lambda>h. truthy (to_js (executeData (field_name h)))) pre
           \<and> \<not> truthy (to_js (executeData (field_name g)))
           \<and> error ?out = JStr (requiredMessage g)"
    using out by auto
  have only: "list_all (\<lambda>h. truthy (to_js (executeData (field_name h))))
             (takeWhile (\<lambda>h. h \<noteq> f) ?fs)
           \<longrightarrow> error ?out = JStr (requiredMessage f)"
  proof
    assume "list_all (\<lambda>h. truthy (to_js (executeData (field_name h))))
              (takeWhile (\<lambda>h. h \<noteq> f) ?fs)"
    from firstMissing_at [OF mem falsy this]
    show "error ?out = JStr (requiredMessage f)"
      by (simp add: handleSubmit_missing)
  qed
  from out ex only show ?thesis by simp
qed

text \<open>
  A legal/fiscal agent with the mode chosen and the query left empty: nothing is executed
  and the error names the query field.
\<close>

theorem handleSubmit_required_field_missing_witness:
  "(field ''query'' ''Query/Instructions'' TextareaField)\<lparr>required := True\<rparr>
      \<in> set (executeFields legal_fiscal)
   \<and> onExecuteCalls
       (handleSubmit
          \<lparr>agent_id = JNum (Num 7), agent_name = js ''Lex'', agent_type = ''legal_fiscal'',
           is_active = JBool True\<rparr>
          legal_fiscal ((\<lambda>_. Unset)(''mode'' := Text (js ''analyze'')))
          (\<lambda>i p. ApiOk JNull)) = []
   \<and> error
       (handleSubmit
          \<lparr>agent_id = JNum (Num 7), agent_name = js ''Lex'', agent_type = ''legal_fiscal'',
           is_active = JBool True\<rparr>
          legal_fiscal ((\<lambda>_. Unset)(''mode'' := Text (js ''analyze'')))
          (\<lambda>i p. ApiOk JNull))
       = JStr (js ''Field '' @ [0x22] @ js ''Query/Instructions'' @ [0x22]
               @ js '' is required'')"
  using handleSubmit_required_field_missing
    [of "(field ''query'' ''Query/Instructions'' TextareaField)\<lparr>required := True\<rparr>"
        legal_fiscal "(\<lambda>_. Unset)(''mode'' := Text (js ''analyze''))"
        "\<lparr>agent_id = JNum (Num 7), agent_name = js ''Lex'', agent_type = ''legal_fiscal'',
          is_active = JBool True\<rparr>"
        "\<lambda>i p. ApiOk JNull"]
  by (simp add: legal_fiscal_def field_def requiredMessage_def js_def)

subsection \<open>ExecuteAgentModal: the payload of an inbox analysis\<close>

lemma js_or_limit:
  "js_or (JNum x) (JNum (Num 20)) =
     JNum (case x of NaN \<Rightarrow> Num 20 | Num n \<Rightarrow> if n = 0 then Num 20 else Num n)"
  by (cases x) (simp_all add: js_or_def)

lemma nullish_default:
  "nullish (to_js v) (JBool True) = (case v of Unset \<Rightarrow> JBool True | _ \<Rightarrow> to_js v)"
  by (cases v) (simp_all add: nullish_def)

lemma required_email_expert:
  "filter required (executeFields email_expert)
     = [(field ''mode'' ''Email Mode'' SelectField)
           \<lparr>required := True,
            options :=
              [(''send_email'', ''Send Email''),
               (''send_email_llm'', ''Send Email (LLM-Generated)''),
               (''analyze_inbox'', ''Analyze Inbox'')]\<rparr>]"
  by (simp add: email_expert_def field_def)

lemmas parseInt_eval =
  parseInt_def js_def stripSign_def stripHexPrefix_def parseDigits_def isRadixDigit_def
  digitValue_def digitsValue_def isSpaceChar_def isWhiteSpace_def isLineTerminator_def

lemma parseInt_zero: "parseInt (js ''0'') = Num 0"
  by (simp add: parseInt_eval)

lemma parseInt_negative_zero: "parseInt (js ''-0'') = Num 0"
  by (simp add: parseInt_eval)

lemma parseInt_fraction: "parseInt (js ''0.5'') = Num 0"
  by (simp add: parseInt_eval)

lemma parseInt_empty: "parseInt [] = NaN"
  by (simp add: parseInt_eval)

lemma parseInt_undefined: "parseIntValue Unset = NaN"
  by (simp add: parseInt_eval)

lemma parseInt_number: "parseInt (js '' 35 '') = Num 35"
  by (simp add: parseInt_eval)

text \<open>
  C10.  For every \<open>email_expert\<close> execution submitted in mode \<open>analyze_inbox\<close>, the one call
  of \<open>onExecute\<close> carries an \<open>input_data\<close> with exactly the properties \<open>mode\<close>, \<open>limit\<close>
  and \<open>unread_only\<close>: \<open>limit\<close> is \<open>parseInt\<close> of the limit field, and 20 when that is
  \<open>NaN\<close> or 0; \<open>unread_only\<close> is the value of the checkbox, and true when it is unset.
\<close>

theorem analyze_inbox_payload:
  assumes "agent_type agent = ''email_expert''"
    and "executeData ''mode'' = Text (js ''analyze_inbox'')"
  shows "onExecuteCalls (handleSubmit agent email_expert executeData onExecute) =
     [(agent_id agent,
       JObj [(''input_data'',
              JObj [(''mode'', JStr (js ''analyze_inbox'')),
                    (''limit'',
                       JNum (case parseIntValue (executeData ''limit'') of
                               NaN \<Rightarrow> Num 20
                             | Num n \<Rightarrow> if n = 0 then Num 20 else Num n)),
                    (''unread_only'',
                       (case executeData ''unread_only'' of
                          Unset \<Rightarrow> JBool True
                        | _ \<Rightarrow> to_js (executeData ''unread_only'')))]),
             (''trigger'', JStr (js ''manual''))])]"
proof -
  let ?input =
    "JObj [(''mode'', JStr (js ''analyze_inbox'')),
           (''limit'',
              JNum (case parseIntValue (executeData ''limit'') of
                      NaN \<Rightarrow> Num 20
                    | Num n \<Rightarrow> if n = 0 then Num 20 else Num n)),
           (''unread_only'',
              (case executeData ''unread_only'' of
                 Unset \<Rightarrow> JBool True
               | _ \<Rightarrow> to_js (executeData ''unread_only'')))]"
  have mode: "js ''analyze_inbox'' \<noteq> []" "js ''analyze_inbox'' \<noteq> js ''send_email''"
    "js ''analyze_inbox'' \<noteq> js ''send_email_llm''"
    by (simp_all add: js_def)
  have first: "firstMissing (filter required (executeFields email_expert)) executeData = None"
    using assms(2) mode(1) by (simp add: required_email_expert field_def)
  have build: "buildInputData (agent_type agent) executeData = Some ?input"
    using assms mode by (simp add: buildInputData_def js_or_limit nullish_default)
  show ?thesis
    by (cases "onExecute (agent_id agent)
                 (JObj [(''input_data'', ?input), (''trigger'', JStr (js ''manual''))])")
       (simp_all add: handleSubmit_def first build)
qed

text \<open>An explicit limit of \<open>0\<close>, the checkbox untouched: 20 and true are sent.\<close>

theorem analyze_inbox_payload_witness:
  "onExecuteCalls
     (handleSubmit
        \<lparr>agent_id = JNum (Num 7), agent_name = js ''Mail'', agent_type = ''email_expert'',
         is_active = JBool True\<rparr>
        email_expert
        ((\<lambda>_. Unset)(''mode'' := Text (js ''analyze_inbox''), ''limit'' := Text (js ''0'')))
        (\<lambda>i p. ApiOk JNull)) =
     [(JNum (Num 7),
       JObj [(''input_data'',
              JObj [(''mode'', JStr (js ''analyze_inbox'')),
                    (''limit'', JNum (Num 20)),
                    (''unread_only'', JBool True)]),
             (''trigger'', JStr (js ''manual''))])]"
  using analyze_inbox_payload
    [of "\<lparr>agent_id = JNum (Num 7), agent_name = js ''Mail'', agent_type = ''email_expert'',
          is_active = JBool True\<rparr>"
        "(\<lambda>_. Unset)(''mode'' := Text (js ''analyze_inbox''), ''limit'' := Text (js ''0''))"
        "\<lambda>i p. ApiOk JNull"]
  by (simp add: parseInt_zero)

subsection \<open>Creating an agent: required credentials\<close>

lemma trim_blank: "list_all isSpaceChar s \<Longrightarrow> trim s = []"
proof -
  assume "list_all isSpaceChar s"
  then have d: "dropWhile isSpaceChar s = []" by (simp add: list_all_iff)
  show ?thesis unfolding trim_def d by simp
qed

lemma path_token: "lookupPath ''github.token'' obj = get_prop (get_prop obj ''github'') ''token''"
  by (simp add: lookupPath_def)

lemma path_repo: "lookupPath ''github.repo'' obj = get_prop (get_prop obj ''github'') ''repo''"
  by (simp add: lookupPath_def)

lemma blank_rejected:
  "isBlank v \<Longrightarrow> \<not> truthy v \<or> (\<exists>s. v = JStr s \<and> trim s = [])"
  by (cases v) (auto simp: isBlank_def trim_blank)

lemma checkRequired_github:
  assumes "isBlank (get_prop (get_prop (mcp_config fd) ''github'') ''token'')
         \<or> isBlank (get_prop (get_prop (mcp_config fd) ''github'') ''repo'')"
  shows "checkRequired [''github.token'', ''github.repo''] fd \<noteq> Valid"
proof -
  let ?t = "get_prop (get_prop (mcp_config fd) ''github'') ''token''"
  let ?r = "get_prop (get_prop (mcp_config fd) ''github'') ''repo''"
  have r: "isBlank ?r \<Longrightarrow> checkRequired [''github.repo''] fd \<noteq> Valid"
    using blank_rejected [of ?r] by (auto simp: path_repo Let_def split: jsval.splits)
  show ?thesis
  proof (cases "isBlank ?t")
    case True
    then show ?thesis
      using blank_rejected [of ?t] by (auto simp: path_token Let_def split: jsval.splits)
  next
    case False
    with assms have "isBlank ?r" by simp
    from r [OF this] show ?thesis by (auto simp: path_token Let_def split: jsval.splits)
  qed
qed

lemma agentTypeOf_branch_code_review:
  "agentTypeOf ''branch_code_review'' = Some branch_code_review"
  by (simp add: agentTypeOf_def AGENT_TYPES_def)

text \<open>
  C4.  For every form of a \<open>branch_code_review\<close> agent in which \<open>github.token\<close> or
  \<open>github.repo\<close> is missing or consists only of whitespace, \<open>validateForm\<close> does not
  accept the form, and the submission sends no request and leaves the list of agents as
  it is: the check comes before the call of \<open>api.post\<close>.
\<close>

theorem branch_code_review_credentials_required:
  assumes "selectedAgentType st = Some ''branch_code_review''"
    and "isBlank (get_prop (get_prop (mcp_config (formData st)) ''github'') ''token'')
       \<or> isBlank (get_prop (get_prop (mcp_config (formData st)) ''github'') ''repo'')"
  shows "validateForm (formData st) (selectedAgentType st) \<noteq> Valid
       \<and> createRequests (Agents_handleSubmit st response) = createRequests st
       \<and> executeRequests (Agents_handleSubmit st response) = executeRequests st
       \<and> agents (Agents_handleSubmit st response) = agents st"
proof -
  have "requiredFields branch_code_review = [''github.token'', ''github.repo'']"
    by (simp add: branch_code_review_def)
  with checkRequired_github [OF assms(2)]
  have v: "validateForm (formData st) (selectedAgentType st) \<noteq> Valid"
    by (simp add: validateForm_def assms(1) agentTypeOf_branch_code_review)
  then show ?thesis
    by (cases "validateForm (formData st) (selectedAgentType st)")
       (simp_all add: Agents_handleSubmit_def)
qed

text \<open>
  A form with a name and a token whose repository is three spaces: the error names the
  repository and nothing is sent.
\<close>

theorem branch_code_review_credentials_required_witness:
  "validateForm
     \<lparr>form_name = js ''Rev'', form_description = [], form_agent_type = ''branch_code_review'',
      config = defaultConfig branch_code_review [],
      mcp_config = JObj [(''github'', JObj [(''token'', JStr (js ''ghp_x'')),
                                            (''repo'', JStr (js ''   ''))])]\<rparr>
     (Some ''branch_code_review'')
     = Invalid (js ''Field github.repo is required'')
   \<and> createRequests
       (Agents_handleSubmit
          (initialPage
             \<lparr>selectedAgentType := Some ''branch_code_review'',
              formData :=
                \<lparr>form_name = js ''Rev'', form_description = [],
                 form_agent_type = ''branch_code_review'',
                 config = defaultConfig branch_code_review [],
                 mcp_config = JObj [(''github'', JObj [(''token'', JStr (js ''ghp_x'')),
                                                       (''repo'', JStr (js ''   ''))])]\<rparr>\<rparr>)
          (ApiOk JNull)) = []"
  using branch_code_review_credentials_required
    [of "initialPage
             \<lparr>selectedAgentType := Some ''branch_code_review'',
              formData :=
                \<lparr>form_name = js ''Rev'', form_description = [],
                 form_agent_type = ''branch_code_review'',
                 config = defaultConfig branch_code_review [],
                 mcp_config = JObj [(''github'', JObj [(''token'', JStr (js ''ghp_x'')),
                                                       (''repo'', JStr (js ''   ''))])]\<rparr>\<rparr>"
        "ApiOk JNull"]
  by (simp add: initialPage_def isBlank_def validateForm_def agentTypeOf_branch_code_review
      branch_code_review_def lookupPath_def trim_def js_def isSpaceChar_def isWhiteSpace_def
      isLineTerminator_def)

text \<open>With both credentials filled in, the same form is accepted and posted.\<close>

lemma branch_code_review_form_accepted:
  "createRequests
     (Agents_handleSubmit
        (initialPage
           \<lparr>selectedAgentType := Some ''branch_code_review'',
            formData :=
              \<lparr>form_name = js ''Rev'', form_description = [],
               form_agent_type = ''branch_code_review'',
               config = defaultConfig branch_code_review [],
               mcp_config = JObj [(''github'', JObj [(''token'', JStr (js ''ghp_x'')),
                                                     (''repo'', JStr (js ''me/repo''))])]\<rparr>\<rparr>)
        (ApiOk JNull))
     = [\<lparr>form_name = js ''Rev'', form_description = [],
         form_agent_type = ''branch_code_review'',
         config = defaultConfig branch_code_review [],
         mcp_config = JObj [(''github'', JObj [(''token'', JStr (js ''ghp_x'')),
                                               (''repo'', JStr (js ''me/repo''))])]\<rparr>]"
  by (simp add: initialPage_def Agents_handleSubmit_def validateForm_def
      agentTypeOf_branch_code_review branch_code_review_def lookupPath_def trim_def js_def
      isSpaceChar_def isWhiteSpace_def isLineTerminator_def)

subsection \<open>The agent types\<close>

lemma llm_provider_truthy: "truthy (llm_provider_default ps)"
  by (simp add: llm_provider_default_def js_or_def js_def)

lemmas agent_type_defs =
  branch_code_review_def code_generator_def legal_fiscal_def accounting_finance_def
  travel_expert_def email_expert_def websearch_def

text \<open>
  C5.  The agent types are a closed set of exactly seven named variants: branch code
  review, code generation, legal/fiscal analysis, accounting analysis, travel planning,
  email handling and web search; no other key of \<open>AGENT_TYPES\<close> is defined.  Every one
  carries its own default configuration (an object with provider, model and temperature,
  whatever the providers) and its own list of required fields, each of which is a path to
  a string of the form that \<open>selectAgentType\<close> builds for the type.
\<close>

theorem agent_types_closed_set:
  "map fst AGENT_TYPES =
     [''branch_code_review'', ''code_generator'', ''legal_fiscal'', ''accounting_finance'',
      ''travel_expert'', ''email_expert'', ''websearch'']
   \<and> length AGENT_TYPES = 7
   \<and> distinct (map fst AGENT_TYPES)
   \<and> (agentTypeOf t \<noteq> None) = (t \<in> set (map fst AGENT_TYPES))
   \<and> list_all (\<lambda>(k, info).
         agentTypeOf k = Some info
       \<and> truthy (get_prop (defaultConfig info ps) ''llm_provider'')
       \<and> truthy (get_prop (defaultConfig info ps) ''llm_model'')
       \<and> truthy (get_prop (defaultConfig info ps) ''llm_temperature'')
       \<and> selectAgentType k ps =
           Some \<lparr>form_name = [], form_description = description info, form_agent_type = k,
                 config = defaultConfig info ps, mcp_config = mcpConfig info\<rparr>
       \<and> list_all (\<lambda>path. isString (lookupPath path
              (if take 6 path = ''github'' then mcpConfig info else defaultConfig info ps)))
           (requiredFields info)) AGENT_TYPES
   \<and> map (\<lambda>(k, info). (k, requiredFields info)) AGENT_TYPES =
       [(''branch_code_review'', [''github.token'', ''github.repo'']),
        (''code_generator'', [''github.token'', ''github.repo'']),
        (''legal_fiscal'', []),
        (''accounting_finance'', []),
        (''travel_expert'', []),
        (''email_expert'', [''email_config.email'', ''email_config.password'']),
        (''websearch'', [])]"
proof -
  have keys: "map fst AGENT_TYPES =
       [''branch_code_review'', ''code_generator'', ''legal_fiscal'', ''accounting_finance'',
        ''travel_expert'', ''email_expert'', ''websearch'']"
    by (simp add: AGENT_TYPES_def)
  have len: "length AGENT_TYPES = 7" by (simp add: AGENT_TYPES_def)
  have dist: "distinct (map fst AGENT_TYPES)" by (simp add: keys)
  have closed_set: "(agentTypeOf t \<noteq> None) = (t \<in> set (map fst AGENT_TYPES))"
    by (simp add: agentTypeOf_def map_of_eq_None_iff)
  have lookup: "list_all (\<lambda>(k, info). agentTypeOf k = Some info) AGENT_TYPES"
    by (simp add: AGENT_TYPES_def agentTypeOf_def)
  have configs: "list_all (\<lambda>(k, info).
         truthy (get_prop (defaultConfig info ps) ''llm_provider'')
       \<and> truthy (get_prop (defaultConfig info ps) ''llm_model'')
       \<and> truthy (get_prop (defaultConfig info ps) ''llm_temperature'')) AGENT_TYPES"
    by (simp add: AGENT_TYPES_def agent_type_defs llm_provider_truthy js_def)
  have sel: "list_all (\<lambda>(k, info).
         selectAgentType k ps =
           Some \<lparr>form_name = [], form_description = description info, form_agent_type = k,
                 config = defaultConfig info ps, mcp_config = mcpConfig info\<rparr>) AGENT_TYPES"
    by (simp add: AGENT_TYPES_def selectAgentType_def agentTypeOf_def)
  have paths: "list_all (\<lambda>(k, info).
         list_all (\<lambda>path. isString (lookupPath path
              (if take 6 path = ''github'' then mcpConfig info else defaultConfig info ps)))
           (requiredFields info)) AGENT_TYPES"
    by (simp add: AGENT_TYPES_def agent_type_defs lookupPath_def isString_def)
  have reqs: "map (\<lambda>(k, info). (k, requiredFields info)) AGENT_TYPES =
       [(''branch_code_review'', [''github.token'', ''github.repo'']),
        (''code_generator'', [''github.token'', ''github.repo'']),
        (''legal_fiscal'', []),
        (''accounting_finance'', []),
        (''travel_expert'', []),
        (''email_expert'', [''email_config.email'', ''email_config.password'']),
        (''websearch'', [])]"
    by (simp add: AGENT_TYPES_def agent_type_defs)
  from lookup configs sel paths
  have all: "list_all (\<lambda>(k, info).
         agentTypeOf k = Some info
       \<and> truthy (get_prop (defaultConfig info ps) ''llm_provider'')
       \<and> truthy (get_prop (defaultConfig info ps) ''llm_model'')
       \<and> truthy (get_prop (defaultConfig info ps) ''llm_temperature'')
       \<and> selectAgentType k ps =
           Some \<lparr>form_name = [], form_description = description info, form_agent_type = k,
                 config = defaultConfig info ps, mcp_config = mcpConfig info\<rparr>
       \<and> list_all (\<lambda>path. isString (lookupPath path
              (if take 6 path = ''github'' then mcpConfig info else defaultConfig info ps)))
           (requiredFields info)) AGENT_TYPES"
    by (simp add: list_all_iff split_beta)
  from keys len dist closed_set all reqs show ?thesis by blast
qed

subsection \<open>The execution engine: status transitions\<close>

lemma transition_iff:
  "(transition e target now = Inr e')
     = (status e = Running \<and> terminal target
        \<and> e' = e\<lparr>status := target, completed_at := Some now\<rparr>)"
  by (auto simp: transition_def)

lemma transition_terminal:
  "terminal (status e) \<Longrightarrow> transition e target now = Inl TransitionRejected"
  by (auto simp: transition_def terminal_def)

lemma attempt_all_terminal:
  "terminal (status e) \<Longrightarrow> attempt_all e tries = (e, [])"
  by (induction tries) (auto simp: transition_terminal)

lemma attempt_all_running:
  "status e = Running \<Longrightarrow>
   attempt_all e tries =
     (case find (\<lambda>(target, now). terminal target) tries of
        None \<Rightarrow> (e, [])
      | Some (target, now) \<Rightarrow>
          (e\<lparr>status := target, completed_at := Some now\<rparr>, [(target, now)]))"
proof (induction tries)
  case Nil
  show ?case by simp
next
  case (Cons x tries)
  obtain t n where x: "x = (t, n)" by (cases x)
  show ?case
  proof (cases "terminal t")
    case True
    then have "terminal (status (e\<lparr>status := t, completed_at := Some n\<rparr>))" by simp
    from attempt_all_terminal [OF this] True Cons.prems show ?thesis
      by (simp add: x transition_def)
  next
    case False
    with Cons show ?thesis by (simp add: x transition_def)
  qed
qed

subsection \<open>The execution engine: what every reachable state satisfies\<close>

lemma inv_initial: "engine_inv initialEngine"
  by (simp add: engine_inv_def initialEngine_def)

lemma find_execution_Some:
  "find_execution st eid = Some e \<Longrightarrow> e \<in> set (executions st) \<and> execution_id e = eid"
  by (auto simp: find_execution_def find_Some_iff)

lemma inv_start: "engine_inv st \<Longrightarrow> engine_inv (snd (start st d input))"
  unfolding engine_inv_def start_def
  by (auto simp: Let_def terminal_def split: option.splits)

lemma store_same:
  assumes "distinct (map execution_id (executions st))" "e \<in> set (executions st)"
    and "execution_id e' = execution_id e"
  shows "set (executions (store e' st)) = insert e' (set (executions st) - {e})"
    and "map execution_id (executions (store e' st)) = map execution_id (executions st)"
proof -
  have "\<And>x. x \<in> set (executions st) \<Longrightarrow> execution_id x = execution_id e \<Longrightarrow> x = e"
    using assms(1,2) by (meson distinct_map inj_onD)
  then show "set (executions (store e' st)) = insert e' (set (executions st) - {e})"
    using assms(2,3) by (auto simp: store_def)
  show "map execution_id (executions (store e' st)) = map execution_id (executions st)"
    using assms(3) by (simp add: store_def comp_def)
qed

lemma inv_replace:
  assumes inv: "engine_inv st" and e: "e \<in> set (executions st)"
    and id: "execution_id e' = execution_id e" and ref: "agent_ref e' = agent_ref e"
    and ok: "(completed_at e' \<noteq> None) = terminal (status e')" "status e' \<noteq> Idle"
    and flag: "flag' = (if status e' = Running then running_flag st
                        else (running_flag st)(agent_ref e := None))"
    and run: "status e = Running"
  shows "engine_inv ((store e' st)\<lparr>running_flag := flag'\<rparr>)"
proof -
  from inv have d: "distinct (map execution_id (executions st))" by (simp add: engine_inv_def)
  note S = store_same [OF d e id]
  have uniq: "\<And>x. x \<in> set (executions st) \<Longrightarrow> execution_id x = execution_id e \<Longrightarrow> x = e"
    using d e by (meson distinct_map inj_onD)
  from inv e run have fe: "running_flag st (agent_ref e) = Some (execution_id e)"
    by (simp add: engine_inv_def)
  have other: "\<And>x. x \<in> set (executions st) \<Longrightarrow> status x = Running \<Longrightarrow> x \<noteq> e
                 \<Longrightarrow> agent_ref x \<noteq> agent_ref e"
  proof
    fix x assume x: "x \<in> set (executions st)" "status x = Running" "x \<noteq> e"
      and same: "agent_ref x = agent_ref e"
    from inv x(1,2) have "running_flag st (agent_ref x) = Some (execution_id x)"
      by (simp add: engine_inv_def)
    with fe same have "execution_id x = execution_id e" by simp
    from uniq [OF x(1) this] x(3) show False by simp
  qed
  have I1: "distinct (map execution_id (executions ((store e' st)\<lparr>running_flag := flag'\<rparr>)))"
    using d S(2) by simp
  have I2: "\<forall>x \<in> set (executions ((store e' st)\<lparr>running_flag := flag'\<rparr>)).
              execution_id x < next_id ((store e' st)\<lparr>running_flag := flag'\<rparr>)"
    using inv e id S(1) by (auto simp: engine_inv_def store_def)
  have I3: "\<forall>dd eid. running_flag ((store e' st)\<lparr>running_flag := flag'\<rparr>) dd = Some eid \<longrightarrow>
            (\<exists>x \<in> set (executions ((store e' st)\<lparr>running_flag := flag'\<rparr>)).
               execution_id x = eid \<and> agent_ref x = dd \<and> status x = Running)"
  proof (intro allI impI)
    fix dd eid assume f: "running_flag ((store e' st)\<lparr>running_flag := flag'\<rparr>) dd = Some eid"
    then have old: "running_flag st dd = Some eid"
      by (auto simp: flag split: if_splits)
    from inv have "\<forall>d eid. running_flag st d = Some eid \<longrightarrow>
            (\<exists>e \<in> set (executions st). execution_id e = eid \<and> agent_ref e = d \<and> status e = Running)"
      by (simp add: engine_inv_def)
    with old obtain x where x: "x \<in> set (executions st)" "execution_id x = eid"
      "agent_ref x = dd" "status x = Running" by blast
    show "\<exists>x \<in> set (executions ((store e' st)\<lparr>running_flag := flag'\<rparr>)).
               execution_id x = eid \<and> agent_ref x = dd \<and> status x = Running"
    proof (cases "x = e")
      case True
      with f x have "status e' = Running" by (auto simp: flag split: if_splits)
      with True x id ref S(1) show ?thesis by auto
    next
      case False
      with x S(1) show ?thesis by auto
    qed
  qed
  have I4: "\<forall>x \<in> set (executions ((store e' st)\<lparr>running_flag := flag'\<rparr>)). status x = Running \<longrightarrow>
            running_flag ((store e' st)\<lparr>running_flag := flag'\<rparr>) (agent_ref x) = Some (execution_id x)"
  proof (intro ballI impI)
    fix x assume x: "x \<in> set (executions ((store e' st)\<lparr>running_flag := flag'\<rparr>))" "status x = Running"
    show "running_flag ((store e' st)\<lparr>running_flag := flag'\<rparr>) (agent_ref x) = Some (execution_id x)"
    proof (cases "x = e'")
      case True
      with x fe id ref show ?thesis by (simp add: flag)
    next
      case False
      with x S(1) have mem: "x \<in> set (executions st)" "x \<noteq> e" by auto
      from inv mem(1) x(2) have "running_flag st (agent_ref x) = Some (execution_id x)"
        by (simp add: engine_inv_def)
      with other [OF mem(1) x(2) mem(2)] show ?thesis by (simp add: flag)
    qed
  qed
  have I5: "\<forall>x \<in> set (executions ((store e' st)\<lparr>running_flag := flag'\<rparr>)).
              (completed_at x \<noteq> None) = terminal (status x) \<and> status x \<noteq> Idle"
    using inv ok S(1) by (auto simp: engine_inv_def)
  from I1 I2 I3 I4 I5 show ?thesis unfolding engine_inv_def by blast
qed

lemma inv_set_status: "engine_inv st \<Longrightarrow> engine_inv (snd (set_status st eid target))"
proof (cases "find_execution st eid")
  case None
  assume "engine_inv st"
  with None show ?thesis by (simp add: set_status_def)
next
  case (Some e)
  assume inv: "engine_inv st"
  show ?thesis
  proof (cases "status e = Running \<and> terminal target")
    case False
    with Some inv show ?thesis by (auto simp: set_status_def transition_def)
  next
    case True
    let ?e' = "e\<lparr>status := target, completed_at := Some (clock st)\<rparr>"
    from find_execution_Some [OF Some] have mem: "e \<in> set (executions st)" by simp
    from True have nr: "status ?e' \<noteq> Running" "status ?e' \<noteq> Idle"
      "(completed_at ?e' \<noteq> None) = terminal (status ?e')" by (auto simp: terminal_def)
    have "engine_inv ((store ?e' st)\<lparr>running_flag := (running_flag st)(agent_ref e := None)\<rparr>)"
      by (rule inv_replace [OF inv mem]) (use True nr in auto)
    with Some True show ?thesis by (simp add: set_status_def transition_def)
  qed
qed

lemma inv_cancel: "engine_inv st \<Longrightarrow> engine_inv (snd (cancel st eid))"
  by (auto simp: cancel_def inv_set_status split: option.splits)

lemma inv_relay: "engine_inv st \<Longrightarrow> engine_inv (relay st eid ev)"
proof (cases "find_execution st eid")
  case None
  assume "engine_inv st"
  with None show ?thesis by (simp add: relay_def)
next
  case (Some e)
  assume inv: "engine_inv st"
  show ?thesis
  proof (cases "status e = Running")
    case False
    with Some inv show ?thesis by (simp add: relay_def)
  next
    case True
    from find_execution_Some [OF Some] have mem: "e \<in> set (executions st)" by simp
    from inv mem have c: "(completed_at e \<noteq> None) = terminal (status e)" "status e \<noteq> Idle"
      by (auto simp: engine_inv_def)
    have keep: "engine_inv ((store e' st)\<lparr>running_flag := running_flag st\<rparr>)"
      if "execution_id e' = execution_id e" "agent_ref e' = agent_ref e"
         "status e' = status e" "completed_at e' = completed_at e" for e'
      by (rule inv_replace [OF inv mem]) (use that True c in auto)
    have emit: "engine_inv (s\<lparr>emitted := x\<rparr>) = engine_inv s" for s x
      by (simp add: engine_inv_def)
    have same: "(store e' st)\<lparr>running_flag := running_flag st\<rparr> = store e' st" for e'
      by (simp add: store_def)
    show ?thesis
      using Some True keep
      by (cases ev) (simp_all add: relay_def emit same)
  qed
qed

lemma inv_step: "engine_inv st \<Longrightarrow> engine_inv (engine_step st req)"
  by (cases req) (simp_all add: inv_start inv_set_status inv_cancel inv_relay, simp add: engine_inv_def)

lemma inv_run: "engine_inv st \<Longrightarrow> engine_inv (engine_run st reqs)"
  unfolding engine_run_def by (induction reqs arbitrary: st) (simp_all add: inv_step)

lemma at_most_one:
  assumes "distinct (map f xs)" and "\<forall>x \<in> set xs. P x \<longrightarrow> f x = c"
  shows "length (filter P xs) \<le> 1"
  using assms
proof (induction xs)
  case Nil
  show ?case by simp
next
  case (Cons a xs)
  show ?case
  proof (cases "P a")
    case False
    with Cons show ?thesis by simp
  next
    case True
    with Cons.prems have fa: "f a = c" by simp
    from Cons.prems have "f a \<notin> f ` set xs" by simp
    with fa Cons.prems(2) have "\<forall>x \<in> set xs. \<not> P x"
      by (metis image_eqI list.set_intros(2))
    then have "filter P xs = []" by (simp add: filter_empty_conv)
    with True show ?thesis by simp
  qed
qed

lemma inv_one_running: "engine_inv st \<Longrightarrow> length (running_of st d) \<le> 1"
proof -
  assume inv: "engine_inv st"
  show ?thesis
  proof (cases "running_flag st d")
    case None
    with inv have "\<forall>x \<in> set (executions st). \<not> (agent_ref x = d \<and> status x = Running)"
      by (auto simp: engine_inv_def)
    then show ?thesis by (simp add: running_of_def filter_empty_conv)
  next
    case (Some eid)
    with inv have "\<forall>x \<in> set (executions st). agent_ref x = d \<and> status x = Running \<longrightarrow> execution_id x = eid"
      by (auto simp: engine_inv_def)
    moreover from inv have "distinct (map execution_id (executions st))" by (simp add: engine_inv_def)
    ultimately show ?thesis unfolding running_of_def by (rule at_most_one [rotated])
  qed
qed

lemma inv_second_start:
  assumes "engine_inv st" "active d" "e \<in> set (running_of st (definition_id d))"
  shows "start st d input = (Inl (ConcurrentExecutionError (execution_id e)), st)"
proof -
  from assms(3) have "e \<in> set (executions st)" "agent_ref e = definition_id d" "status e = Running"
    by (auto simp: running_of_def)
  with assms(1) have "running_flag st (definition_id d) = Some (execution_id e)"
    by (auto simp: engine_inv_def)
  with assms(2) show ?thesis by (simp add: start_def)
qed

lemma store_keeps_other:
  assumes "distinct (map execution_id (executions st))" "x \<in> set (executions st)"
    and "execution_id e' = execution_id x" "e \<in> set (executions st)" "e \<noteq> x"
  shows "e \<in> set (executions (store e' st))"
  using store_same(1) [OF assms(1,2,3)] assms(4,5) by simp

lemma terminal_kept_step:
  assumes inv: "engine_inv st" and e: "e \<in> set (executions st)" and t: "terminal (status e)"
  shows "e \<in> set (executions (engine_step st req))"
proof -
  from inv have d: "distinct (map execution_id (executions st))" by (simp add: engine_inv_def)
  from t have nr: "status e \<noteq> Running" by (auto simp: terminal_def)
  have set_status_keeps: "e \<in> set (executions (snd (set_status st eid target)))" for eid target
  proof (cases "find_execution st eid")
    case None
    with e show ?thesis by (simp add: set_status_def)
  next
    case (Some x)
    note x = find_execution_Some [OF Some]
    show ?thesis
    proof (cases "status x = Running \<and> terminal target")
      case False
      with Some e show ?thesis by (auto simp: set_status_def transition_def)
    next
      case True
      with nr have "e \<noteq> x" by auto
      from store_keeps_other [OF d _ _ e this, of "x\<lparr>status := target, completed_at := Some (clock st)\<rparr>"] x
      have "e \<in> set (executions (store (x\<lparr>status := target, completed_at := Some (clock st)\<rparr>) st))"
        by simp
      with Some True show ?thesis by (simp add: set_status_def transition_def store_def)
    qed
  qed
  show ?thesis
  proof (cases req)
    case (Start dd input)
    with e show ?thesis by (auto simp: start_def Let_def split: option.splits)
  next
    case (Finish eid target)
    with set_status_keeps show ?thesis by simp
  next
    case (Cancel eid)
    with set_status_keeps e show ?thesis by (auto simp: cancel_def split: option.splits)
  next
    case (Emit eid ev)
    show ?thesis
    proof (cases "find_execution st eid")
      case None
      with e Emit show ?thesis by (simp add: relay_def)
    next
      case (Some x)
      note x = find_execution_Some [OF Some]
      show ?thesis
      proof (cases "status x = Running")
        case False
        with Some e Emit show ?thesis by (simp add: relay_def)
      next
        case True
        with nr have ne: "e \<noteq> x" by auto
        have "e \<in> set (executions (store e' st))" if "execution_id e' = execution_id x" for e'
          using store_keeps_other [OF d _ that e ne] x by simp
        with Some True Emit show ?thesis
          by (cases ev) (simp_all add: relay_def store_def)
      qed
    qed
  next
    case Tick
    with e show ?thesis by simp
  qed
qed

lemma terminal_kept_run:
  "engine_inv st \<Longrightarrow> e \<in> set (executions st) \<Longrightarrow> terminal (status e)
   \<Longrightarrow> e \<in> set (executions (engine_run st reqs))"
  unfolding engine_run_def
  by (induction reqs arbitrary: st) (simp_all add: terminal_kept_step inv_step)

lemma start_accepted_active: "fst (start st d input) = Inr e \<Longrightarrow> active d"
  by (auto simp: start_def split: if_splits)

lemma engine_run_append:
  "engine_run st (xs @ ys) = engine_run (engine_run st xs) ys"
  by (simp add: engine_run_def)

lemma inv_reachable: "engine_inv (engine_run initialEngine reqs)"
  by (rule inv_run [OF inv_initial])

text \<open>
  C2.  The status of an Execution only moves along \<open>running \<rightarrow> {completed, failed,
  cancelled}\<close>: a transition is accepted exactly from \<open>running\<close> to a terminal status and
  sets \<open>completed_at\<close> in the same step; every transition out of a terminal state is
  rejected; of any sequence of attempts on a running Execution the first one that asks
  for a terminal status is the only one accepted, so \<open>completed_at\<close> is set once; in
  every state the engine reaches, \<open>completed_at\<close> is set exactly for the Executions in a
  terminal state; and an Execution in a terminal state stays in the store as it is,
  whatever is asked of the engine afterwards.
\<close>

theorem status_transitions_one_way:
  "((transition e target now = Inr e')
      = (status e = Running \<and> terminal target
         \<and> e' = e\<lparr>status := target, completed_at := Some now\<rparr>))
   \<and> (terminal (status e) \<longrightarrow>
        transition e target now = Inl TransitionRejected \<and> attempt_all e tries = (e, []))
   \<and> (status e = Running \<longrightarrow>
        attempt_all e tries =
          (case find (\<lambda>(target, now). terminal target) tries of
             None \<Rightarrow> (e, [])
           | Some (target, now) \<Rightarrow>
               (e\<lparr>status := target, completed_at := Some now\<rparr>, [(target, now)])))
   \<and> list_all (\<lambda>x. (completed_at x \<noteq> None) = terminal (status x) \<and> status x \<noteq> Idle)
        (executions (engine_run initialEngine reqs))
   \<and> (finished \<in> set (executions (engine_run initialEngine reqs))
       \<and> terminal (status finished)
       \<longrightarrow> finished \<in> set (executions (engine_run initialEngine (reqs @ further))))"
proof -
  have "list_all (\<lambda>x. (completed_at x \<noteq> None) = terminal (status x) \<and> status x \<noteq> Idle)
        (executions (engine_run initialEngine reqs))"
    using inv_reachable [of reqs] by (simp add: engine_inv_def list_all_iff)
  moreover have "finished \<in> set (executions (engine_run initialEngine reqs))
       \<and> terminal (status finished)
       \<longrightarrow> finished \<in> set (executions (engine_run initialEngine (reqs @ further)))"
    using terminal_kept_run [OF inv_reachable, of finished reqs further]
    by (simp add: engine_run_append)
  ultimately show ?thesis
    using transition_iff [of e target now e'] transition_terminal [of e target now]
      attempt_all_terminal [of e tries] attempt_all_running [of e tries]
    by blast
qed

text \<open>
  A running Execution asked in turn for \<open>running\<close>, \<open>idle\<close>, \<open>completed\<close>, \<open>failed\<close> and
  \<open>cancelled\<close>: it completes at time 3 and stays so; completed, it rejects \<open>running\<close>.
  In the engine, an Execution finished at time 3 is left alone by a later finish, a
  cancel, an event and a restart.
\<close>

theorem status_transitions_one_way_witness:
  "attempt_all
     \<lparr>execution_id = 0, agent_ref = 1, status = Running, input_payload = JNull,
      exec_log = [], exec_result = None, tokens_used = 0, started_at = 0,
      completed_at = None\<rparr>
     [(Running, 1), (Idle, 2), (Completed, 3), (Failed, 4), (Cancelled, 5)]
   = (\<lparr>execution_id = 0, agent_ref = 1, status = Completed, input_payload = JNull,
       exec_log = [], exec_result = None, tokens_used = 0, started_at = 0,
       completed_at = Some 3\<rparr>, [(Completed, 3)])
   \<and> transition
       \<lparr>execution_id = 0, agent_ref = 1, status = Completed, input_payload = JNull,
        exec_log = [], exec_result = None, tokens_used = 0, started_at = 0,
        completed_at = Some 3\<rparr> Running 4
     = Inl TransitionRejected
   \<and> executions
       (engine_run initialEngine
          [Start \<lparr>definition_id = 1, workflow_type = ''websearch'', active = True,
                  tool_servers = []\<rparr> JNull,
           Tick, Tick, Tick, Finish 0 Completed, Tick, Finish 0 Failed, Cancel 0,
           Emit 0 (TokensEvent 5), Finish 0 Running])
     = [\<lparr>execution_id = 0, agent_ref = 1, status = Completed, input_payload = JNull,
         exec_log = [], exec_result = None, tokens_used = 0, started_at = 0,
         completed_at = Some 3\<rparr>]"
  using status_transitions_one_way
    [of "\<lparr>execution_id = 0, agent_ref = 1, status = Running, input_payload = JNull,
          exec_log = [], exec_result = None, tokens_used = 0, started_at = 0,
          completed_at = None\<rparr>"
        Completed 3
        "\<lparr>execution_id = 0, agent_ref = 1, status = Completed, input_payload = JNull,
          exec_log = [], exec_result = None, tokens_used = 0, started_at = 0,
          completed_at = Some 3\<rparr>"
        "[(Running, 1), (Idle, 2), (Completed, 3), (Failed, 4), (Cancelled, 5)]" "[]"]
    status_transitions_one_way
    [of "\<lparr>execution_id = 0, agent_ref = 1, status = Completed, input_payload = JNull,
          exec_log = [], exec_result = None, tokens_used = 0, started_at = 0,
          completed_at = Some 3\<rparr>"
        Running 4
        "\<lparr>execution_id = 0, agent_ref = 1, status = Completed, input_payload = JNull,
          exec_log = [], exec_result = None, tokens_used = 0, started_at = 0,
          completed_at = Some 3\<rparr>" "[]"
        "[Start \<lparr>definition_id = 1, workflow_type = ''websearch'', active = True,
                  tool_servers = []\<rparr> JNull,
          Tick, Tick, Tick, Finish 0 Completed]"
        "\<lparr>execution_id = 0, agent_ref = 1, status = Completed, input_payload = JNull,
          exec_log = [], exec_result = None, tokens_used = 0, started_at = 0,
          completed_at = Some 3\<rparr>"
        "[Tick, Finish 0 Failed, Cancel 0, Emit 0 (TokensEvent 5), Finish 0 Running]"]
  by (simp add: terminal_def engine_run_def start_def initialEngine_def Let_def
      set_status_def cancel_def relay_def find_execution_def transition_def store_def)

subsection \<open>The execution engine: one running Execution per definition\<close>

text \<open>
  C3.  In every state the engine reaches, a definition has at most one running
  Execution; and while one is running, a start request for the definition fails with
  \<open>ConcurrentExecutionError\<close>, refers to the running Execution and leaves the engine,
  its store included, as it was.  This holds of every request that passes the activity
  check, which \<open>start\<close> makes first (an inactive definition gets \<open>ConfigError\<close>), and
  so of every second request for a definition whose first request was accepted.
\<close>

theorem one_running_execution_per_definition:
  "length (running_of (engine_run initialEngine reqs) d) \<le> 1
   \<and> (active agentDef
       \<and> e \<in> set (running_of (engine_run initialEngine reqs) (definition_id agentDef))
       \<longrightarrow> start (engine_run initialEngine reqs) agentDef input
             = (Inl (ConcurrentExecutionError (execution_id e)),
                engine_run initialEngine reqs))
   \<and> (fst (start (engine_run initialEngine before) agentDef firstInput) = Inr started
       \<and> e \<in> set (running_of
                    (engine_run initialEngine (before @ Start agentDef firstInput # later))
                    (definition_id agentDef))
       \<longrightarrow> start (engine_run initialEngine (before @ Start agentDef firstInput # later))
               agentDef input
             = (Inl (ConcurrentExecutionError (execution_id e)),
                engine_run initialEngine (before @ Start agentDef firstInput # later)))"
  using inv_one_running [OF inv_reachable, of reqs d]
    inv_second_start [OF inv_reachable, of agentDef e reqs input]
    inv_second_start [OF inv_reachable, of agentDef e
      "before @ Start agentDef firstInput # later" input]
    start_accepted_active [of "engine_run initialEngine before" agentDef firstInput started]
  by blast

text \<open>A definition is started twice: one Execution, the second request is refused.\<close>

theorem one_running_execution_per_definition_witness:
  "running_of
     (engine_run initialEngine
        [Start \<lparr>definition_id = 1, workflow_type = ''websearch'', active = True,
                tool_servers = []\<rparr> JNull]) 1
     = [\<lparr>execution_id = 0, agent_ref = 1, status = Running, input_payload = JNull,
         exec_log = [], exec_result = None, tokens_used = 0, started_at = 0,
         completed_at = None\<rparr>]
   \<and> start
       (engine_run initialEngine
          [Start \<lparr>definition_id = 1, workflow_type = ''websearch'', active = True,
                  tool_servers = []\<rparr> JNull])
       \<lparr>definition_id = 1, workflow_type = ''websearch'', active = True,
        tool_servers = []\<rparr> JNull
     = (Inl (ConcurrentExecutionError 0),
        engine_run initialEngine
          [Start \<lparr>definition_id = 1, workflow_type = ''websearch'', active = True,
                  tool_servers = []\<rparr> JNull])"
  using one_running_execution_per_definition
    [of "[Start \<lparr>definition_id = 1, workflow_type = ''websearch'', active = True,
                  tool_servers = []\<rparr> JNull]" 1
        "\<lparr>definition_id = 1, workflow_type = ''websearch'', active = True,
          tool_servers = []\<rparr>"
        "\<lparr>execution_id = 0, agent_ref = 1, status = Running, input_payload = JNull,
          exec_log = [], exec_result = None, tokens_used = 0, started_at = 0,
          completed_at = None\<rparr>" JNull "[]" JNull
        "\<lparr>execution_id = 0, agent_ref = 1, status = Running, input_payload = JNull,
          exec_log = [], exec_result = None, tokens_used = 0, started_at = 0,
          completed_at = None\<rparr>" "[]"]
  by (simp add: engine_run_def start_def initialEngine_def running_of_def Let_def)

text \<open>Once the Execution is finished, the definition can be started again.\<close>

lemma start_after_finish:
  "map status
     (executions
        (engine_run initialEngine
           [Start \<lparr>definition_id = 1, workflow_type = ''websearch'', active = True,
                   tool_servers = []\<rparr> JNull,
            Finish 0 Completed,
            Start \<lparr>definition_id = 1, workflow_type = ''websearch'', active = True,
                   tool_servers = []\<rparr> JNull]))
     = [Completed, Running]"
  by (simp add: engine_run_def start_def initialEngine_def set_status_def find_execution_def
      transition_def terminal_def store_def Let_def)

subsection \<open>The Tool Protocol Client: counting calls\<close>

lemma call_servers: "servers (snd (call c s outs)) = servers c"
  by (simp add: call_def split: prod.splits)

lemma call_count:
  "mcp_calls (snd (call c srv outs)) s
     = mcp_calls c s + (if srv = s \<and> srv \<in> set (servers c) then 1 else 0)"
  by (simp add: call_def split: prod.splits)

text \<open>
  Three timeouts exhaust three attempts: three attempts are made and the call counts
  once.
\<close>

lemma retries_counted_once:
  "call \<lparr>servers = [''github''], max_attempts = 3, mcp_calls = (\<lambda>s. 0), attempts_made = 0\<rparr>
     ''github'' [TimedOut, TimedOut, TimedOut, Succeeded JNull]
   = (CallFailed TimedOut,
      \<lparr>servers = [''github''], max_attempts = 3, mcp_calls = (\<lambda>s. 0)(''github'' := 1),
       attempts_made = 3\<rparr>)"
  by (simp add: call_def transient_def numeral_3_eq_3)

lemma unknown_server_not_counted:
  "call \<lparr>servers = [''github''], max_attempts = 3, mcp_calls = (\<lambda>s. 0), attempts_made = 0\<rparr>
     ''jira'' [Succeeded JNull]
   = (CallConfigError,
      \<lparr>servers = [''github''], max_attempts = 3, mcp_calls = (\<lambda>s. 0), attempts_made = 0\<rparr>)"
  by (simp add: call_def)

text \<open>
  C6.  For every tool-server name \<open>s\<close>, the calls issued add to \<open>mcp_calls[s]\<close> the
  number of logical calls to \<open>s\<close> among them, \<open>s\<close> being a configured server: whatever
  the attempts of each call were, and nothing for a server that is not configured.
\<close>

theorem mcp_calls_count_logical_calls:
  "mcp_calls (call_all c calls) s
     = mcp_calls c s
       + length (filter (\<lambda>(serverName, outcomes). serverName = s \<and> serverName \<in> set (servers c))
                   calls)"
proof (induction calls arbitrary: c)
  case Nil
  show ?case by simp
next
  case (Cons x calls)
  obtain srv outs where x: "x = (srv, outs)" by (cases x)
  show ?case
    by (auto simp: x Cons.IH call_servers call_count)
qed

subsection \<open>An inactive agent is not executed\<close>

lemma clickExecute_inactive: "\<not> truthy (is_active a) \<Longrightarrow> clickExecute a st = st"
  by (simp add: clickExecute_def clickButton_def)

lemma submit_keeps_modalAgentActive:
  "modalAgentActive st \<Longrightarrow> modalAgentActive (submitExecuteModal d r st)"
  by (auto simp: modalAgentActive_def submitExecuteModal_def closeExecuteModal_def Let_def
       list_all_iff split: option.splits api_result.splits)

lemma step_keeps_modalAgentActive:
  "modalAgentActive st \<Longrightarrow> modalAgentActive (page_step st ev)"
proof (cases ev)
  case (ExecuteModalSubmitted d r)
  assume "modalAgentActive st"
  from submit_keeps_modalAgentActive [OF this] ExecuteModalSubmitted show ?thesis by simp
qed (auto simp: modalAgentActive_def clickExecute_def clickButton_def handleExecuteAgent_def
       closeExecuteModal_def)

lemma run_keeps_modalAgentActive:
  "modalAgentActive st \<Longrightarrow> modalAgentActive (page_run st evs)"
  unfolding page_run_def
  by (induction evs arbitrary: st) (simp_all add: step_keeps_modalAgentActive)

lemma modalAgentActive_initial: "modalAgentActive initialPage"
  by (simp add: modalAgentActive_def initialPage_def)

text \<open>An active agent, on the other hand, is executed: the request is sent.\<close>

lemma active_agent_executed:
  "executeRequests
     (page_run initialPage
        [AgentsLoaded
           [\<lparr>agent_id = JNum (Num 1), agent_name = js ''Search'', agent_type = ''websearch'',
             is_active = JBool True\<rparr>],
         ExecuteClicked 0,
         ExecuteModalSubmitted ((\<lambda>_. Unset)(''query'' := Text (js ''isabelle''))) (ApiOk JNull)])
     = [(\<lparr>agent_id = JNum (Num 1), agent_name = js ''Search'', agent_type = ''websearch'',
          is_active = JBool True\<rparr>,
         JObj [(''input_data'', JObj [(''query'', JStr (js ''isabelle''))]),
               (''trigger'', JStr (js ''manual''))])]"
  by (simp add: page_run_def initialPage_def clickExecute_def clickButton_def
      handleExecuteAgent_def submitExecuteModal_def agentTypeOf_def AGENT_TYPES_def
      handleSubmit_def websearch_def field_def buildInputData_def js_def Let_def
      closeExecuteModal_def)

text \<open>
  C1.  For every agent whose active flag is false, a request to execute it fails with
  \<open>ConfigError\<close> and leaves the engine as it was: no Execution is created and nothing is
  relayed.  On the page, a click on the button Execute of such an agent does nothing, and
  whatever happens on the page, every execution request it sends is for an agent that was
  listed as active.
\<close>

theorem inactive_agent_not_executed:
  "(\<not> active agentDef \<longrightarrow> start st agentDef input = (Inl ConfigError, st))
   \<and> (\<not> truthy (is_active a) \<longrightarrow> clickExecute a page = page)
   \<and> list_all (\<lambda>(a, payload). truthy (is_active a))
        (executeRequests (page_run initialPage evs))"
proof -
  have "list_all (\<lambda>(a, payload). truthy (is_active a))
          (executeRequests (page_run initialPage evs))"
    using run_keeps_modalAgentActive [OF modalAgentActive_initial, of evs]
    by (simp add: modalAgentActive_def)
  then show ?thesis
    using clickExecute_inactive [of a page] by (simp add: start_def)
qed

text \<open>
  An inactive web search agent: the engine refuses it; on the page its button does not
  open the modal, and a submission sends nothing.
\<close>

theorem inactive_agent_not_executed_witness:
  "start initialEngine
     \<lparr>definition_id = 1, workflow_type = ''websearch'', active = False, tool_servers = []\<rparr>
     JNull = (Inl ConfigError, initialEngine)
   \<and> clickExecute
       \<lparr>agent_id = JNum (Num 1), agent_name = js ''Search'', agent_type = ''websearch'',
        is_active = JBool False\<rparr> initialPage = initialPage
   \<and> executeRequests
       (page_run initialPage
          [AgentsLoaded
             [\<lparr>agent_id = JNum (Num 1), agent_name = js ''Search'', agent_type = ''websearch'',
               is_active = JBool False\<rparr>],
           ExecuteClicked 0,
           ExecuteModalSubmitted ((\<lambda>_. Unset)(''query'' := Text (js ''isabelle'')))
             (ApiOk JNull)])
     = []"
  using inactive_agent_not_executed
    [of "\<lparr>definition_id = 1, workflow_type = ''websearch'', active = False,
          tool_servers = []\<rparr>"
        initialEngine JNull
        "\<lparr>agent_id = JNum (Num 1), agent_name = js ''Search'', agent_type = ''websearch'',
          is_active = JBool False\<rparr>"
        initialPage
        "[AgentsLoaded
             [\<lparr>agent_id = JNum (Num 1), agent_name = js ''Search'', agent_type = ''websearch'',
               is_active = JBool False\<rparr>],
           ExecuteClicked 0,
           ExecuteModalSubmitted ((\<lambda>_. Unset)(''query'' := Text (js ''isabelle'')))
             (ApiOk JNull)]"]
  by (simp add: page_run_def initialPage_def clickExecute_def clickButton_def
      submitExecuteModal_def)

subsection \<open>MarkdownMessage\<close>

lemma countMatches_numeral [simp]:
  "countMatches m (numeral v) (c # cs) = countMatches m (pred_numeral v) cs"
  by (simp add: numeral_eq_Suc)

text \<open>
  The streaming branch really rewrites: an unclosed fence is closed for the time being,
  a closed one is left alone, and a bullet without text gets an ellipsis.
\<close>

lemma processedContent_open_fence:
  "processedContent (fence @ js ''js'' @ [0x0A] @ js ''x'') True
     = fence @ js ''js'' @ [0x0A] @ js ''x'' @ fenceSuffix"
  by (simp add: processedContent_def matchOpening_def matchClosing_def fence_def js_def
      isWordChar_def isSpaceChar_def isWhiteSpace_def isLineTerminator_def)

lemma processedContent_closed_fence:
  "processedContent (fence @ js ''js'' @ [0x0A] @ js ''x'' @ [0x0A] @ fence) True
     = fence @ js ''js'' @ [0x0A] @ js ''x'' @ [0x0A] @ fence"
  by (simp add: processedContent_def matchOpening_def matchClosing_def fence_def js_def
      isWordChar_def isSpaceChar_def isWhiteSpace_def isLineTerminator_def lastLine_def
      isOpenBullet_def)

lemma processedContent_open_bullet:
  "processedContent (js ''a'' @ [0x0A] @ js ''- '') True = js ''a'' @ [0x0A] @ js ''- ...''"
  by (simp add: processedContent_def matchOpening_def matchClosing_def fence_def js_def
      isWordChar_def isSpaceChar_def isWhiteSpace_def isLineTerminator_def lastLine_def
      isOpenBullet_def)

text \<open>
  C9.  For every content string, when \<open>isStreaming\<close> is false the preprocessing of
  MarkdownMessage is the identity: \<open>processedContent\<close> is the content, unchanged.
\<close>

theorem processedContent_not_streaming:
  "processedContent content False = content"
  by (simp add: processedContent_def)

end
